theory Spec2Isabelle
  imports Complex_Main
begin

section \<open>The FRED dashboard: series retrieval and normalisation\<close>

text \<open>
  A shallow embedding of \<^verbatim>\<open>app/services/fredApi.ts\<close> (the Series Fetcher and the four
  normalising pipelines) and of \<^verbatim>\<open>loadData\<close> in \<^verbatim>\<open>app/page.tsx\<close> (the Page Controller).

  JavaScript strings are modelled by \<^typ>\<open>string\<close>: the bytes of their UTF-8 encoding. The
  source compares strings, splits at an ASCII letter and hands strings to the platform's
  parsers, all of which read the same under that encoding.

  An \<^verbatim>\<open>async\<close> function is modelled by what its promise settles with: \<open>Inr v\<close> when it
  resolves with \<open>v\<close>, \<open>Inl e\<close> when it rejects with \<open>e\<close>. The model covers calls of
  \<^verbatim>\<open>fetch\<close> that settle.
\<close>

subsection \<open>Data model\<close>

text \<open>\<^verbatim>\<open>interface FredObservation { date: string; value: string }\<close>\<close>

record FredObservation =
  obs_date :: string
  obs_value :: string

text \<open>\<^verbatim>\<open>interface FredSeriesResponse { observations: FredObservation[] }\<close>\<close>

record FredSeriesResponse =
  observations :: "FredObservation list"

text \<open>
  A JavaScript number as \<^verbatim>\<open>parseFloat\<close> produces it: \<^verbatim>\<open>NaN\<close>, an infinity with its sign
  (\<open>True\<close> for the negative one), or a finite binary64 value, given by the rational it is.
  The sign of zero is not kept.
\<close>

datatype js_number = NaN | Infinity bool | Number rat

text \<open>The object literal \<^verbatim>\<open>{ date: ..., value: ... }\<close> that the pipelines return.\<close>

record NormalizedPoint =
  point_date :: string
  point_value :: js_number

text \<open>What a \<^verbatim>\<open>throw\<close> or a rejected promise carries.\<close>

datatype js_error = Error string | TypeError | SyntaxError | RangeError

subsection \<open>Decimal digits\<close>

definition is_digit :: "char \<Rightarrow> bool" where
  "is_digit c = (c \<in> set ''0123456789'')"

definition digit_val :: "char \<Rightarrow> int" where
  "digit_val c = (case map_of (zip ''0123456789'' [0, 1, 2, 3, 4, 5, 6, 7, 8, 9]) c of
                    Some n \<Rightarrow> n | None \<Rightarrow> 0)"

definition digits_val :: "string \<Rightarrow> int" where
  "digits_val ds = foldl (\<lambda>acc c. acc * 10 + digit_val c) 0 ds"

definition digit_char :: "nat \<Rightarrow> char" where
  "digit_char n = ''0123456789'' ! (n mod 10)"

fun decimal :: "nat \<Rightarrow> string" where
  "decimal n = (if n < 10 then [digit_char n] else decimal (n div 10) @ [digit_char n])"

declare decimal.simps [simp del]

definition pad :: "nat \<Rightarrow> nat \<Rightarrow> string" where
  "pad w n = replicate (w - length (decimal n)) (CHR ''0'') @ decimal n"

subsection \<open>\<^verbatim>\<open>parseFloat\<close>\<close>

text \<open>
  ECMAScript \<^verbatim>\<open>parseFloat(string)\<close>: leading white space is skipped, then the longest
  prefix that is a \<^verbatim>\<open>StrDecimalLiteral\<close> is read; there is none exactly when the result is
  \<^verbatim>\<open>NaN\<close>. White space is the ASCII set and the UTF-8 forms of U+00A0, U+1680,
  U+2000 to U+200A, U+2028, U+2029, U+202F, U+205F, U+3000 and U+FEFF.
\<close>

definition ascii_space :: "char list" where
  "ascii_space = [CHR 0x09, CHR 0x0A, CHR 0x0B, CHR 0x0C, CHR 0x0D, CHR 0x20]"

definition space2 :: "string list" where
  "space2 = [[CHR 0xC2, CHR 0xA0]]"

definition space3 :: "string list" where
  "space3 = [[CHR 0xE1, CHR 0x9A, CHR 0x80],
     [CHR 0xE2, CHR 0x80, CHR 0x80], [CHR 0xE2, CHR 0x80, CHR 0x81],
     [CHR 0xE2, CHR 0x80, CHR 0x82], [CHR 0xE2, CHR 0x80, CHR 0x83],
     [CHR 0xE2, CHR 0x80, CHR 0x84], [CHR 0xE2, CHR 0x80, CHR 0x85],
     [CHR 0xE2, CHR 0x80, CHR 0x86], [CHR 0xE2, CHR 0x80, CHR 0x87],
     [CHR 0xE2, CHR 0x80, CHR 0x88], [CHR 0xE2, CHR 0x80, CHR 0x89],
     [CHR 0xE2, CHR 0x80, CHR 0x8A], [CHR 0xE2, CHR 0x80, CHR 0xA8],
     [CHR 0xE2, CHR 0x80, CHR 0xA9], [CHR 0xE2, CHR 0x80, CHR 0xAF],
     [CHR 0xE2, CHR 0x81, CHR 0x9F], [CHR 0xE3, CHR 0x80, CHR 0x80],
     [CHR 0xEF, CHR 0xBB, CHR 0xBF]]"

fun trim_start :: "string \<Rightarrow> string" where
  "trim_start [] = []"
| "trim_start (c # cs) =
     (if c \<in> set ascii_space then trim_start cs
      else if c # take 1 cs \<in> set space2 then trim_start (drop 1 cs)
      else if c # take 2 cs \<in> set space3 then trim_start (drop 2 cs)
      else c # cs)"

text \<open>An optional sign: whether it is \<^verbatim>\<open>-\<close>, and the rest.\<close>

definition read_sign :: "string \<Rightarrow> bool \<times> string" where
  "read_sign s =
     (case s of
        [] \<Rightarrow> (False, s)
      | c # r \<Rightarrow> if c = CHR ''-'' then (True, r) else if c = CHR ''+'' then (False, r) else (False, s))"

text \<open>
  \<^verbatim>\<open>ExponentPart\<close>: \<^verbatim>\<open>e\<close> or \<^verbatim>\<open>E\<close>, an optional sign and at least one digit; when
  the digits are missing the literal ends before the letter and the exponent is 0.
\<close>

definition read_exponent :: "string \<Rightarrow> int" where
  "read_exponent s =
     (case s of
        [] \<Rightarrow> 0
      | c # r \<Rightarrow>
          if c = CHR ''e'' \<or> c = CHR ''E'' then
            (let (neg, r') = read_sign r; ds = takeWhile is_digit r'
             in if ds = [] then 0
                else if neg then - digits_val ds else digits_val ds)
          else 0)"

text \<open>
  Rounding to binary64, to nearest with ties to even: the value of the fraction \<open>p / d\<close>
  (\<open>p\<close> not negative, \<open>d\<close> positive) with the sign \<open>neg\<close>. \<open>e\<close> is the binary exponent of the
  fraction, not below that of the subnormal numbers, \<open>n\<close> is the fraction in units of
  \<open>2 ^ (e - 52)\<close>, rounded; a result of \<open>2 ^ 1024\<close> or more is an infinity.
\<close>

definition scale2 :: "int \<Rightarrow> rat" where
  "scale2 e = (if 0 \<le> e then 2 ^ nat e else 1 / 2 ^ nat (- e))"

function bit_length :: "int \<Rightarrow> int" where
  "bit_length n = (if n \<le> 0 then 0 else 1 + bit_length (n div 2))"
  by pat_completeness auto
termination
  by (relation "measure nat") auto

declare bit_length.simps [simp del]

definition floor_log2 :: "int \<Rightarrow> int \<Rightarrow> int" where
  "floor_log2 p d =
     (let k = bit_length p - bit_length d
      in if (if 0 \<le> k then d * 2 ^ nat k \<le> p else d \<le> p * 2 ^ nat (- k)) then k else k - 1)"

definition round_half_even :: "int \<Rightarrow> int \<Rightarrow> int" where
  "round_half_even p d =
     (let f = p div d; r = p mod d
      in if 2 * r < d then f else if d < 2 * r then f + 1 else if even f then f else f + 1)"

definition binary64 :: "bool \<Rightarrow> int \<Rightarrow> int \<Rightarrow> js_number" where
  "binary64 neg p d =
     (if p = 0 then Number 0
      else
        (let e = max (floor_log2 p d) (- 1022);
             s = e - 52;
             n = (if 0 \<le> s then round_half_even p (d * 2 ^ nat s)
                  else round_half_even (p * 2 ^ nat (- s)) d)
         in if 1024 \<le> e \<or> (e = 1023 \<and> n = 2 ^ 53) then Infinity neg
            else Number (of_int (if neg then - n else n) * scale2 s)))"

text \<open>The number that a decimal literal of the source or of the specification denotes.\<close>

definition double :: "rat \<Rightarrow> js_number" where
  "double q = (let (p, d) = quotient_of q in binary64 (p < 0) \<bar>p\<bar> d)"

definition parseFloat :: "string \<Rightarrow> js_number" where
  "parseFloat s =
     (let (neg, u) = read_sign (trim_start s)
      in if take 8 u = ''Infinity'' then Infinity neg
         else
           (let ip = takeWhile is_digit u;
                r1 = dropWhile is_digit u;
                (fp, r2) = (case r1 of
                              [] \<Rightarrow> ([], r1)
                            | c # r \<Rightarrow> if c = CHR ''.''
                                       then (takeWhile is_digit r, dropWhile is_digit r)
                                       else ([], r1))
            in if ip = [] \<and> fp = [] then NaN
               else
                 (let m = digits_val (ip @ fp);
                      ex = read_exponent r2 - int (length fp)
                  in if 0 \<le> ex then binary64 neg (m * 10 ^ nat ex) 1
                     else binary64 neg m (10 ^ nat (- ex)))))"

subsection \<open>Time values and calendar dates\<close>

text \<open>
  A time value is a number of milliseconds since 1970-01-01T00:00:00Z. A \<^verbatim>\<open>Date\<close> object
  holds a time value or \<^verbatim>\<open>NaN\<close> (an invalid date), modelled by \<open>None\<close>.
\<close>

definition msPerDay :: int where
  "msPerDay = 24 * 60 * 60 * 1000"

text \<open>The day number of a time value, and the calendar date (year, month, day) of a day number
  in the proleptic Gregorian calendar.\<close>

definition Day :: "int \<Rightarrow> int" where
  "Day t = t div msPerDay"

definition civil_from_days :: "int \<Rightarrow> int \<times> int \<times> int" where
  "civil_from_days z0 =
     (let z = z0 + 719468;
          era = z div 146097;
          doe = z - era * 146097;
          yoe = (doe - doe div 1460 + doe div 36524 - doe div 146096) div 365;
          doy = doe - (365 * yoe + yoe div 4 - yoe div 100);
          mp = (5 * doy + 2) div 153;
          d = doy - (153 * mp + 2) div 5 + 1;
          m = (if mp < 10 then mp + 3 else mp - 9);
          y = yoe + era * 400
      in (if m \<le> 2 then y + 1 else y, m, d))"

definition days_from_civil :: "int \<Rightarrow> int \<Rightarrow> int \<Rightarrow> int" where
  "days_from_civil y0 m d =
     (let y = (if m \<le> 2 then y0 - 1 else y0);
          era = y div 400;
          yoe = y - era * 400;
          doy = (153 * (if 2 < m then m - 3 else m + 9) + 2) div 5 + d - 1;
          doe = yoe * 365 + yoe div 4 - yoe div 100 + doy
      in era * 146097 + doe - 719468)"

definition leap_year :: "int \<Rightarrow> bool" where
  "leap_year y = (if y mod 100 = 0 then y mod 400 = 0 else y mod 4 = 0)"

definition days_in_month :: "int \<Rightarrow> int \<Rightarrow> int" where
  "days_in_month y m =
     (if m = 2 then (if leap_year y then 29 else 28)
      else if m = 4 \<or> m = 6 \<or> m = 9 \<or> m = 11 then 30 else 31)"

text \<open>
  \<^verbatim>\<open>new Date(value)\<close> for a number: \<^verbatim>\<open>TimeClip\<close> keeps a time value of at most
  8.64e15 milliseconds in magnitude, anything else is an invalid date.
\<close>

definition TimeClip :: "int \<Rightarrow> int option" where
  "TimeClip t = (if \<bar>t\<bar> \<le> 8640000000000000 then Some t else None)"

text \<open>
  \<^verbatim>\<open>Date.prototype.toISOString\<close>: \<^verbatim>\<open>YYYY-MM-DDTHH:mm:ss.sssZ\<close> in UTC, the year
  written with a sign and six digits outside 0 to 9999; a \<^verbatim>\<open>RangeError\<close> on an invalid date.
\<close>

definition iso_year :: "int \<Rightarrow> string" where
  "iso_year y =
     (if 0 \<le> y \<and> y \<le> 9999 then pad 4 (nat y)
      else if y < 0 then CHR ''-'' # pad 6 (nat (- y))
      else CHR ''+'' # pad 6 (nat y))"

definition iso_date :: "int \<Rightarrow> string" where
  "iso_date day =
     (let (y, m, d) = civil_from_days day
      in iso_year y @ ''-'' @ pad 2 (nat m) @ ''-'' @ pad 2 (nat d))"

definition iso_time :: "int \<Rightarrow> string" where
  "iso_time ms =
     pad 2 (nat (ms div 3600000)) @ '':'' @ pad 2 (nat (ms div 60000 mod 60)) @ '':'' @
     pad 2 (nat (ms div 1000 mod 60)) @ ''.'' @ pad 3 (nat (ms mod 1000)) @ ''Z''"

definition toISOString :: "int option \<Rightarrow> js_error + string" where
  "toISOString tv =
     (case tv of
        None \<Rightarrow> Inl RangeError
      | Some t \<Rightarrow> Inr (iso_date (Day t) @ ''T'' @ iso_time (t mod msPerDay)))"

text \<open>\<^verbatim>\<open>s.split('T')[0]\<close>: the part of \<open>s\<close> before its first \<^verbatim>\<open>T\<close>, all of \<open>s\<close> when it has none.\<close>

definition split_T_0 :: "string \<Rightarrow> string" where
  "split_T_0 s = takeWhile (\<lambda>c. c \<noteq> CHR ''T'') s"

text \<open>
  The date-only form \<^verbatim>\<open>YYYY-MM-DD\<close> of the ECMAScript date-time string format, which
  \<^verbatim>\<open>Date.parse\<close> reads as midnight UTC of that day. A string with an element out of range
  is not an instance of the format.
\<close>

definition parse_date_only :: "string \<Rightarrow> int option" where
  "parse_date_only s =
     (if length s = 10 \<and> s ! 4 = CHR ''-'' \<and> s ! 7 = CHR ''-''
         \<and> list_all is_digit (take 4 s) \<and> list_all is_digit (take 2 (drop 5 s))
         \<and> list_all is_digit (drop 8 s)
      then
        (let y = digits_val (take 4 s);
             m = digits_val (take 2 (drop 5 s));
             d = digits_val (drop 8 s)
         in if 1 \<le> m \<and> m \<le> 12 \<and> 1 \<le> d \<and> d \<le> days_in_month y m
            then Some (days_from_civil y m d * msPerDay) else None)
      else None)"

definition month_short :: "int \<Rightarrow> string" where
  "month_short m =
     [''Jan'', ''Feb'', ''Mar'', ''Apr'', ''May'', ''Jun'',
      ''Jul'', ''Aug'', ''Sep'', ''Oct'', ''Nov'', ''Dec''] ! nat (m - 1)"

text \<open>The year of a \<^verbatim>\<open>year: 'numeric'\<close> field: the year of the era, so 1 BC (year 0) reads 1.\<close>

definition year_numeric :: "int \<Rightarrow> string" where
  "year_numeric y = decimal (nat (if 1 \<le> y then y else 1 - y))"

subsection \<open>The host\<close>

text \<open>
  What the code reads from its surroundings: the environment variable
  \<^verbatim>\<open>NEXT_PUBLIC_FRED_API_KEY\<close> (\<open>None\<close> when undefined), what \<^verbatim>\<open>fetch\<close> of a URL settles
  with, the offset in milliseconds of the host's local time from UTC at a time value, and
  what \<^verbatim>\<open>Date.parse\<close> makes of a string outside the date-only format, which ECMAScript
  leaves to the implementation.
\<close>

text \<open>
  The body of a response, by what lines 41 and 42 make of it: \<open>NotJson\<close> is a body on which
  \<^verbatim>\<open>response.json()\<close> rejects; \<open>NotSeries\<close> is JSON on which the expression of line 42
  throws (no \<^verbatim>\<open>observations\<close> array, or a \<^verbatim>\<open>null\<close> entry in it); \<open>Series\<close> is JSON of
  the type that line 41 asserts, \<^verbatim>\<open>FredSeriesResponse\<close>.
\<close>

datatype body = NotJson | NotSeries | Series FredSeriesResponse

record response =
  status :: nat
  body :: body

datatype fetch_outcome = NetworkError | Responded response

record url =
  base :: string
  searchParams :: "(string \<times> string) list"

record host =
  API_KEY :: "string option"
  net :: "url \<Rightarrow> fetch_outcome"
  LocalTZA :: "int \<Rightarrow> int"
  parse_other :: "string \<Rightarrow> int option"

text \<open>\<^verbatim>\<open>response.ok\<close>: the status is in the range 200 to 299.\<close>

definition ok :: "response \<Rightarrow> bool" where
  "ok r = (200 \<le> status r \<and> status r \<le> 299)"

text \<open>\<^verbatim>\<open>new Date(string)\<close>\<close>

definition Date_parse :: "host \<Rightarrow> string \<Rightarrow> int option" where
  "Date_parse h s = (case parse_date_only s of Some t \<Rightarrow> Some t | None \<Rightarrow> parse_other h s)"

text \<open>
  \<^verbatim>\<open>toLocaleDateString('en-US', { month: 'short', year: 'numeric' })\<close>: no
  \<^verbatim>\<open>timeZone\<close> option is given, so the fields are those of the host's local time.
\<close>

definition toLocaleDateString :: "host \<Rightarrow> int option \<Rightarrow> string" where
  "toLocaleDateString h tv =
     (case tv of
        None \<Rightarrow> ''Invalid Date''
      | Some t \<Rightarrow>
          (let (y, m, d) = civil_from_days (Day (t + LocalTZA h t))
           in month_short m @ '' '' @ year_numeric y))"

subsection \<open>The Series Fetcher\<close>

text \<open>
  A call returns what its promise settles with, the URLs it passed to \<^verbatim>\<open>fetch\<close> in
  order, and what it wrote to the console.
\<close>

datatype console_entry = Warn string | ErrorLog string js_error

record 'a run =
  returned :: "js_error + 'a"
  calls :: "url list"
  console :: "console_entry list"

definition FRED_API_BASE :: string where
  "FRED_API_BASE = ''https://api.stlouisfed.org/fred''"

text \<open>
  Truthiness of a value of type \<^verbatim>\<open>string | undefined\<close>: \<^verbatim>\<open>undefined\<close> and the empty
  string are falsy.
\<close>

definition truthy :: "string option \<Rightarrow> bool" where
  "truthy x = (case x of None \<Rightarrow> False | Some s \<Rightarrow> s \<noteq> [])"

definition falsy :: "string option \<Rightarrow> bool" where
  "falsy x = (case x of None \<Rightarrow> True | Some s \<Rightarrow> s = [])"

text \<open>
  The \<^verbatim>\<open>URLSearchParams\<close> object of lines 23 to 30, as its list of entries, and the URL
  of line 34 with these entries as its query.
\<close>

definition params :: "string \<Rightarrow> string \<Rightarrow> string option \<Rightarrow> string option \<Rightarrow> (string \<times> string) list" where
  "params seriesId key startDate endDate =
     [(''series_id'', seriesId), (''api_key'', key), (''file_type'', ''json'')]
     @ (case startDate of
          None \<Rightarrow> []
        | Some s \<Rightarrow> if truthy (Some s) then [(''observation_start'', s)] else [])
     @ (case endDate of
          None \<Rightarrow> []
        | Some s \<Rightarrow> if truthy (Some s) then [(''observation_end'', s)] else [])"

definition request_url :: "string \<Rightarrow> string \<Rightarrow> string option \<Rightarrow> string option \<Rightarrow> url" where
  "request_url seriesId key startDate endDate =
     \<lparr>base = FRED_API_BASE @ ''/series/observations'',
      searchParams = params seriesId key startDate endDate\<rparr>"

text \<open>
  The body of the \<^verbatim>\<open>try\<close> block, lines 33 to 42: \<open>Inl\<close> is what it throws. \<^verbatim>\<open>fetch\<close>
  rejects with a \<^verbatim>\<open>TypeError\<close> on a network failure; \<^verbatim>\<open>response.json()\<close> rejects with
  a \<^verbatim>\<open>SyntaxError\<close> on a body that is not JSON; on JSON that is not a series response the
  member access of line 42 throws a \<^verbatim>\<open>TypeError\<close>.
\<close>

definition try_block :: "host \<Rightarrow> url \<Rightarrow> js_error + FredObservation list" where
  "try_block h u =
     (case net h u of
        NetworkError \<Rightarrow> Inl TypeError
      | Responded response \<Rightarrow>
          if \<not> ok response then Inl (Error (''FRED API error: '' @ decimal (status response)))
          else
            (case body response of
               NotJson \<Rightarrow> Inl SyntaxError
             | NotSeries \<Rightarrow> Inl TypeError
             | Series data \<Rightarrow> Inr (filter (\<lambda>obs. obs_value obs \<noteq> ''.'') (observations data))))"

definition fetchFredSeries ::
  "host \<Rightarrow> string \<Rightarrow> string option \<Rightarrow> string option \<Rightarrow> (FredObservation list) run" where
  "fetchFredSeries h seriesId startDate endDate =
     (case API_KEY h of
        None \<Rightarrow>
          \<lparr>returned = Inr [], calls = [],
           console = [Warn ''FRED API key not configured. Using mock data.'']\<rparr>
      | Some key \<Rightarrow>
          if falsy (Some key) \<or> key = ''your_fred_api_key_here'' then
            \<lparr>returned = Inr [], calls = [],
             console = [Warn ''FRED API key not configured. Using mock data.'']\<rparr>
          else
            (let u = request_url seriesId key startDate endDate
             in case try_block h u of
                  Inr obs \<Rightarrow> \<lparr>returned = Inr obs, calls = [u], console = []\<rparr>
                | Inl error \<Rightarrow>
                    \<lparr>returned = Inr [], calls = [u],
                     console = [ErrorLog ''Error fetching FRED data:'' error]\<rparr>))"

subsection \<open>The four pipelines\<close>

text \<open>
  Each pipeline reads the clock twice: \<open>t_new\<close> is the time value of \<^verbatim>\<open>new Date()\<close> and
  \<open>t_now\<close> that of \<^verbatim>\<open>Date.now()\<close>. An exception before the fetch rejects the promise of
  the \<^verbatim>\<open>async\<close> function.
\<close>

definition fetchCPIData :: "host \<Rightarrow> int \<Rightarrow> int \<Rightarrow> (NormalizedPoint list) run" where
  "fetchCPIData h t_new t_now =
     (case toISOString (TimeClip t_new) of
        Inl e \<Rightarrow> \<lparr>returned = Inl e, calls = [], console = []\<rparr>
      | Inr s1 \<Rightarrow>
          (let endDate = split_T_0 s1
           in case toISOString (TimeClip (t_now - 5 * 365 * 24 * 60 * 60 * 1000)) of
                Inl e \<Rightarrow> \<lparr>returned = Inl e, calls = [], console = []\<rparr>
              | Inr s2 \<Rightarrow>
                  (let startDate = split_T_0 s2;
                       r = fetchFredSeries h ''CPALTT01USM657N'' (Some startDate) (Some endDate)
                   in case returned r of
                        Inl e \<Rightarrow> \<lparr>returned = Inl e, calls = calls r, console = console r\<rparr>
                      | Inr data \<Rightarrow>
                          \<lparr>returned = Inr (map (\<lambda>obs.
                               \<lparr>point_date = toLocaleDateString h (Date_parse h (obs_date obs)),
                                point_value = parseFloat (obs_value obs)\<rparr>) data),
                           calls = calls r, console = console r\<rparr>)))"

definition fetchUnemploymentData :: "host \<Rightarrow> int \<Rightarrow> int \<Rightarrow> (NormalizedPoint list) run" where
  "fetchUnemploymentData h t_new t_now =
     (case toISOString (TimeClip t_new) of
        Inl e \<Rightarrow> \<lparr>returned = Inl e, calls = [], console = []\<rparr>
      | Inr s1 \<Rightarrow>
          (let endDate = split_T_0 s1
           in case toISOString (TimeClip (t_now - 5 * 365 * 24 * 60 * 60 * 1000)) of
                Inl e \<Rightarrow> \<lparr>returned = Inl e, calls = [], console = []\<rparr>
              | Inr s2 \<Rightarrow>
                  (let startDate = split_T_0 s2;
                       r = fetchFredSeries h ''UNRATE'' (Some startDate) (Some endDate)
                   in case returned r of
                        Inl e \<Rightarrow> \<lparr>returned = Inl e, calls = calls r, console = console r\<rparr>
                      | Inr data \<Rightarrow>
                          \<lparr>returned = Inr (map (\<lambda>obs.
                               \<lparr>point_date = toLocaleDateString h (Date_parse h (obs_date obs)),
                                point_value = parseFloat (obs_value obs)\<rparr>) data),
                           calls = calls r, console = console r\<rparr>)))"

definition fetch10YearTreasuryData :: "host \<Rightarrow> int \<Rightarrow> int \<Rightarrow> (NormalizedPoint list) run" where
  "fetch10YearTreasuryData h t_new t_now =
     (case toISOString (TimeClip t_new) of
        Inl e \<Rightarrow> \<lparr>returned = Inl e, calls = [], console = []\<rparr>
      | Inr s1 \<Rightarrow>
          (let endDate = split_T_0 s1
           in case toISOString (TimeClip (t_now - 5 * 365 * 24 * 60 * 60 * 1000)) of
                Inl e \<Rightarrow> \<lparr>returned = Inl e, calls = [], console = []\<rparr>
              | Inr s2 \<Rightarrow>
                  (let startDate = split_T_0 s2;
                       r = fetchFredSeries h ''GS10'' (Some startDate) (Some endDate)
                   in case returned r of
                        Inl e \<Rightarrow> \<lparr>returned = Inl e, calls = calls r, console = console r\<rparr>
                      | Inr data \<Rightarrow>
                          \<lparr>returned = Inr (map (\<lambda>obs.
                               \<lparr>point_date = toLocaleDateString h (Date_parse h (obs_date obs)),
                                point_value = parseFloat (obs_value obs)\<rparr>) data),
                           calls = calls r, console = console r\<rparr>)))"

definition fetch3MonthTreasuryData :: "host \<Rightarrow> int \<Rightarrow> int \<Rightarrow> (NormalizedPoint list) run" where
  "fetch3MonthTreasuryData h t_new t_now =
     (case toISOString (TimeClip t_new) of
        Inl e \<Rightarrow> \<lparr>returned = Inl e, calls = [], console = []\<rparr>
      | Inr s1 \<Rightarrow>
          (let endDate = split_T_0 s1
           in case toISOString (TimeClip (t_now - 5 * 365 * 24 * 60 * 60 * 1000)) of
                Inl e \<Rightarrow> \<lparr>returned = Inl e, calls = [], console = []\<rparr>
              | Inr s2 \<Rightarrow>
                  (let startDate = split_T_0 s2;
                       r = fetchFredSeries h ''TB3MS'' (Some startDate) (Some endDate)
                   in case returned r of
                        Inl e \<Rightarrow> \<lparr>returned = Inl e, calls = calls r, console = console r\<rparr>
                      | Inr data \<Rightarrow>
                          \<lparr>returned = Inr (map (\<lambda>obs.
                               \<lparr>point_date = toLocaleDateString h (Date_parse h (obs_date obs)),
                                point_value = parseFloat (obs_value obs)\<rparr>) data),
                           calls = calls r, console = console r\<rparr>)))"

subsection \<open>The Page Controller\<close>

text \<open>
  The state of \<^verbatim>\<open>Home\<close>: the five \<^verbatim>\<open>useState\<close> cells, with the initial values of
  lines 91 to 95.
\<close>

record page_state =
  cpiData :: "NormalizedPoint list"
  laborData :: "NormalizedPoint list"
  interest10YData :: "NormalizedPoint list"
  interest3MData :: "NormalizedPoint list"
  loading :: bool

definition initial_state :: page_state where
  "initial_state =
     \<lparr>cpiData = [], laborData = [], interest10YData = [], interest3MData = [], loading = True\<rparr>"

datatype update =
    SetCpiData "NormalizedPoint list"
  | SetLaborData "NormalizedPoint list"
  | SetInterest10YData "NormalizedPoint list"
  | SetInterest3MData "NormalizedPoint list"
  | SetLoading bool
  | ConsoleError string js_error

fun apply_update :: "update \<Rightarrow> page_state \<Rightarrow> page_state" where
  "apply_update (SetCpiData v) s = s\<lparr>cpiData := v\<rparr>"
| "apply_update (SetLaborData v) s = s\<lparr>laborData := v\<rparr>"
| "apply_update (SetInterest10YData v) s = s\<lparr>interest10YData := v\<rparr>"
| "apply_update (SetInterest3MData v) s = s\<lparr>interest3MData := v\<rparr>"
| "apply_update (SetLoading b) s = s\<lparr>loading := b\<rparr>"
| "apply_update (ConsoleError m e) s = s"

text \<open>
  A promise that settles: the time at which it settles, in milliseconds after the component
  mounts, and what it settles with.
\<close>

type_synonym 'a promise = "nat \<times> (js_error + 'a)"

text \<open>
  \<^verbatim>\<open>Promise.all\<close>: rejects as soon as one of the promises rejects, with that reason (the
  first in the list among the earliest); otherwise resolves once all of them have resolved,
  with their values in the order of the list.
\<close>

definition rejections :: "'a promise list \<Rightarrow> (nat \<times> js_error) list" where
  "rejections ps = concat (map (\<lambda>(t, r). case r of Inl e \<Rightarrow> [(t, e)] | Inr v \<Rightarrow> []) ps)"

definition fulfilments :: "'a promise list \<Rightarrow> 'a list" where
  "fulfilments ps = concat (map (\<lambda>(t, r). case r of Inl e \<Rightarrow> [] | Inr v \<Rightarrow> [v]) ps)"

fun earliest :: "nat \<times> js_error \<Rightarrow> (nat \<times> js_error) list \<Rightarrow> nat \<times> js_error" where
  "earliest p [] = p"
| "earliest p (q # qs) = earliest (if fst q < fst p then q else p) qs"

definition Promise_all :: "'a promise list \<Rightarrow> ('a list) promise" where
  "Promise_all ps =
     (case rejections ps of
        [] \<Rightarrow> (foldr max (map fst ps) 0, Inr (fulfilments ps))
      | r # rs \<Rightarrow> (let (t, e) = earliest r rs in (t, Inl e)))"

text \<open>
  \<^verbatim>\<open>loadData\<close>, lines 98 to 117, given the promises of the four pipeline calls: the state
  updates it performs, each with its time, in order.
\<close>

definition loadData_on ::
  "(NormalizedPoint list) promise \<Rightarrow> (NormalizedPoint list) promise \<Rightarrow>
   (NormalizedPoint list) promise \<Rightarrow> (NormalizedPoint list) promise \<Rightarrow> (nat \<times> update) list" where
  "loadData_on p1 p2 p3 p4 =
     (0, SetLoading True) #
     (case Promise_all [p1, p2, p3, p4] of
        (t, Inr vs) \<Rightarrow>
          [(t, SetCpiData (vs ! 0)), (t, SetLaborData (vs ! 1)),
           (t, SetInterest10YData (vs ! 2)), (t, SetInterest3MData (vs ! 3)),
           (t, SetLoading False)]
      | (t, Inl error) \<Rightarrow>
          [(t, ConsoleError ''Error loading FRED data:'' error), (t, SetLoading False)])"

text \<open>
  \<^verbatim>\<open>loadData\<close> on a host: the four pipelines are called in the order of lines 102 to 105,
  \<open>clock k\<close> is the \<open>k\<close>-th reading of the clock, and \<open>w1\<close> to \<open>w4\<close> are the times at which
  the four promises settle.
\<close>

definition loadData :: "host \<Rightarrow> (nat \<Rightarrow> int) \<Rightarrow> nat \<Rightarrow> nat \<Rightarrow> nat \<Rightarrow> nat \<Rightarrow> (nat \<times> update) list" where
  "loadData h clock w1 w2 w3 w4 =
     loadData_on
       (w1, returned (fetchCPIData h (clock 0) (clock 1)))
       (w2, returned (fetchUnemploymentData h (clock 2) (clock 3)))
       (w3, returned (fetch10YearTreasuryData h (clock 4) (clock 5)))
       (w4, returned (fetch3MonthTreasuryData h (clock 6) (clock 7)))"

text \<open>The state of the page at time \<open>t\<close>: the updates up to \<open>t\<close> applied to the initial state.\<close>

definition state_at :: "(nat \<times> update) list \<Rightarrow> nat \<Rightarrow> page_state" where
  "state_at events t =
     foldl (\<lambda>s (u, upd). apply_update upd s) initial_state (filter (\<lambda>(u, upd). u \<le> t) events)"

subsection \<open>Notions used in the statements\<close>

text \<open>The callback of \<^verbatim>\<open>data.map\<close>, the same in the four pipelines.\<close>

definition normalizer :: "host \<Rightarrow> FredObservation \<Rightarrow> NormalizedPoint" where
  "normalizer h obs =
     \<lparr>point_date = toLocaleDateString h (Date_parse h (obs_date obs)),
      point_value = parseFloat (obs_value obs)\<rparr>"

text \<open>The sentinel test of line 42.\<close>

definition sentinel :: "FredObservation \<Rightarrow> bool" where
  "sentinel obs = (obs_value obs = ''.'')"

text \<open>The four pipelines with their series identifiers.\<close>

definition pipelines :: "(string \<times> (host \<Rightarrow> int \<Rightarrow> int \<Rightarrow> (NormalizedPoint list) run)) list" where
  "pipelines =
     [(''CPALTT01USM657N'', fetchCPIData), (''UNRATE'', fetchUnemploymentData),
      (''GS10'', fetch10YearTreasuryData), (''TB3MS'', fetch3MonthTreasuryData)]"

text \<open>The credential is configured: set, not empty and not the placeholder.\<close>

definition configured :: "host \<Rightarrow> string \<Rightarrow> bool" where
  "configured h key = (API_KEY h = Some key \<and> key \<noteq> [] \<and> key \<noteq> ''your_fred_api_key_here'')"

text \<open>
  The two clock readings of a pipeline give valid dates: the reading of \<^verbatim>\<open>new Date()\<close>
  and the reading of \<^verbatim>\<open>Date.now()\<close> less five times 365 days are time values.
\<close>

definition clock_ok :: "int \<Rightarrow> int \<Rightarrow> bool" where
  "clock_ok t_new t_now =
     (\<bar>t_new\<bar> \<le> 8640000000000000 \<and> \<bar>t_now - 157680000000\<bar> \<le> 8640000000000000)"

text \<open>
  The shape that the four pipelines share: the Fetcher called with a series identifier, a
  start date and an end date, and its observations mapped by the normaliser.
\<close>

definition pipeline_of :: "host \<Rightarrow> string \<Rightarrow> string \<Rightarrow> string \<Rightarrow> (NormalizedPoint list) run" where
  "pipeline_of h seriesId startDate endDate =
     (let r = fetchFredSeries h seriesId (Some startDate) (Some endDate)
      in \<lparr>returned = map_sum (\<lambda>e. e) (map (normalizer h)) (returned r),
          calls = calls r, console = console r\<rparr>)"

text \<open>The URL that a pipeline requests for a series when the clock reads \<open>t_new\<close>, \<open>t_now\<close>.\<close>

definition pipeline_url :: "string \<Rightarrow> string \<Rightarrow> int \<Rightarrow> int \<Rightarrow> url" where
  "pipeline_url seriesId key t_new t_now =
     request_url seriesId key (Some (iso_date (Day t_now - 1825))) (Some (iso_date (Day t_new)))"

text \<open>
  Hosts for the examples: a configured credential, an upstream that answers every request
  with the same response, a fixed offset of local time from UTC.
\<close>

definition example_observations :: "FredObservation list" where
  "example_observations =
     [\<lparr>obs_date = ''2020-01-01'', obs_value = ''3.6''\<rparr>,
      \<lparr>obs_date = ''2020-02-01'', obs_value = ''.''\<rparr>,
      \<lparr>obs_date = ''2020-03-01'', obs_value = ''4.4''\<rparr>]"

definition example_host :: "fetch_outcome \<Rightarrow> int \<Rightarrow> host" where
  "example_host outcome tza =
     \<lparr>API_KEY = Some ''abcdef0123456789'', net = (\<lambda>u. outcome),
      LocalTZA = (\<lambda>t. tza), parse_other = (\<lambda>s. None)\<rparr>"

definition series_response :: "FredObservation list \<Rightarrow> fetch_outcome" where
  "series_response obs = Responded \<lparr>status = 200, body = Series \<lparr>observations = obs\<rparr>\<rparr>"

text \<open>
  A string that reads as a decimal number as a whole: an optional sign, digits with an
  optional fraction part or a fraction part alone, an optional exponent, and nothing after.
\<close>

definition numeric :: "string \<Rightarrow> bool" where
  "numeric s =
     (let (neg, u) = read_sign s;
          ip = takeWhile is_digit u;
          r1 = dropWhile is_digit u;
          (fp, r2) = (case r1 of
                        [] \<Rightarrow> ([], r1)
                      | c # r \<Rightarrow> if c = CHR ''.''
                                 then (takeWhile is_digit r, dropWhile is_digit r)
                                 else ([], r1));
          r3 = (case r2 of
                  [] \<Rightarrow> []
                | c # r \<Rightarrow>
                    if c = CHR ''e'' \<or> c = CHR ''E'' then
                      (let (eneg, r') = read_sign r
                       in if takeWhile is_digit r' = [] then r2 else dropWhile is_digit r')
                    else r2)
      in (ip, fp) \<noteq> ([], []) \<and> r3 = [])"

text \<open>
  A string that begins with a number: after leading white space and an optional sign comes
  \<^verbatim>\<open>Infinity\<close>, a digit, or a point followed by a digit.
\<close>

definition starts_with_number :: "string \<Rightarrow> bool" where
  "starts_with_number s =
     (let (neg, u) = read_sign (trim_start s)
      in take 8 u = ''Infinity'' \<or>
         (case u of
            [] \<Rightarrow> False
          | c # r \<Rightarrow>
              is_digit c \<or>
              (c = CHR ''.'' \<and> (case r of [] \<Rightarrow> False | c' # r' \<Rightarrow> is_digit c'))))"

section \<open>Properties\<close>

subsection \<open>Dates of the request window\<close>

lemma digit_char_digit: "digit_char n \<in> set ''0123456789''"
proof -
  have "n mod 10 < length ''0123456789''" by simp
  then show ?thesis unfolding digit_char_def by (rule nth_mem)
qed

lemma digit_char_no_T: "digit_char n \<noteq> CHR ''T''"
  using digit_char_digit [of n] by auto

lemma decimal_no_T: "CHR ''T'' \<notin> set (decimal n)"
proof (induction n rule: decimal.induct)
  case (1 n)
  show ?case
  proof (cases "n < 10")
    case True
    then have "decimal n = [digit_char n]" by (simp add: decimal.simps)
    then show ?thesis using digit_char_no_T [of n] by simp
  next
    case False
    then have "decimal n = decimal (n div 10) @ [digit_char n]" by (subst decimal.simps) simp
    then show ?thesis using 1 False digit_char_no_T [of n] by simp
  qed
qed

lemma pad_no_T: "CHR ''T'' \<notin> set (pad w n)"
  using decimal_no_T [of n] by (simp add: pad_def)

lemma iso_year_no_T: "CHR ''T'' \<notin> set (iso_year y)"
  by (simp add: iso_year_def pad_no_T)

lemma iso_date_no_T: "CHR ''T'' \<notin> set (iso_date d)"
  by (simp add: iso_date_def iso_year_no_T pad_no_T split: prod.splits)

lemma iso_date_not_empty: "iso_date d \<noteq> []"
  by (simp add: iso_date_def split: prod.splits)

lemma split_T_0_iso: "split_T_0 (iso_date d @ CHR ''T'' # rest) = iso_date d"
proof -
  have "takeWhile (\<lambda>c. c \<noteq> CHR ''T'') (iso_date d @ CHR ''T'' # rest)
        = takeWhile (\<lambda>c. c \<noteq> CHR ''T'') (iso_date d)"
    by (rule takeWhile_tail) simp
  also have "\<dots> = iso_date d"
  proof -
    have "\<forall>c \<in> set (iso_date d). c \<noteq> CHR ''T''"
      using iso_date_no_T [of d] by blast
    then show ?thesis by (simp only: takeWhile_eq_all_conv)
  qed
  finally show ?thesis by (simp add: split_T_0_def)
qed

lemma Day_five_years: "Day (t - 5 * 365 * 24 * 60 * 60 * 1000) = Day t - 1825"
proof -
  have "t - 5 * 365 * 24 * 60 * 60 * 1000 = t + (- 1825) * msPerDay" by (simp add: msPerDay_def)
  then show ?thesis unfolding Day_def by (simp add: msPerDay_def)
qed

lemma toISOString_valid:
  assumes "\<bar>t\<bar> \<le> 8640000000000000"
  shows "toISOString (TimeClip t) = Inr (iso_date (Day t) @ CHR ''T'' # iso_time (t mod msPerDay))"
  using assms by (simp add: toISOString_def TimeClip_def)

subsection \<open>The Fetcher and the shape of the pipelines\<close>

lemma fetchFredSeries_resolves: "\<exists>obs. returned (fetchFredSeries h sid sd ed) = Inr obs"
  by (simp add: fetchFredSeries_def Let_def split: option.splits sum.splits)

lemma fetchFredSeries_unconfigured:
  assumes "API_KEY h = None \<or> API_KEY h = Some [] \<or> API_KEY h = Some ''your_fred_api_key_here''"
  shows "fetchFredSeries h sid sd ed =
         \<lparr>returned = Inr [], calls = [],
          console = [Warn ''FRED API key not configured. Using mock data.'']\<rparr>"
  using assms by (auto simp: fetchFredSeries_def falsy_def)

lemma fetchFredSeries_configured:
  assumes "configured h key"
  shows "fetchFredSeries h sid sd ed =
         (case try_block h (request_url sid key sd ed) of
            Inr obs \<Rightarrow> \<lparr>returned = Inr obs, calls = [request_url sid key sd ed], console = []\<rparr>
          | Inl error \<Rightarrow>
              \<lparr>returned = Inr [], calls = [request_url sid key sd ed],
               console = [ErrorLog ''Error fetching FRED data:'' error]\<rparr>)"
  using assms by (simp add: fetchFredSeries_def configured_def falsy_def Let_def)

lemma try_block_no_sentinel:
  assumes "try_block h u = Inr obs"
  shows "\<forall>obs' \<in> set obs. obs_value obs' \<noteq> ''.''"
  using assms
  by (auto simp: try_block_def split: fetch_outcome.splits if_splits body.splits)

lemma fetchFredSeries_no_sentinel:
  assumes "returned (fetchFredSeries h sid sd ed) = Inr obs"
  shows "\<forall>obs' \<in> set obs. obs_value obs' \<noteq> ''.''"
proof (cases "\<exists>key. configured h key")
  case True
  then obtain key where k: "configured h key" by blast
  show ?thesis
  proof (cases "try_block h (request_url sid key sd ed)")
    case (Inl e)
    with assms k show ?thesis by (simp add: fetchFredSeries_configured)
  next
    case (Inr obs2)
    with assms k have "obs = obs2" by (simp add: fetchFredSeries_configured)
    with Inr try_block_no_sentinel show ?thesis by blast
  qed
next
  case False
  then have "API_KEY h = None \<or> API_KEY h = Some [] \<or> API_KEY h = Some ''your_fred_api_key_here''"
    by (cases "API_KEY h") (auto simp: configured_def)
  with assms show ?thesis by (simp add: fetchFredSeries_unconfigured)
qed

lemma fetchCPIData_shape:
  assumes "clock_ok t_new t_now"
  shows "fetchCPIData h t_new t_now =
         pipeline_of h ''CPALTT01USM657N'' (iso_date (Day t_now - 1825)) (iso_date (Day t_new))"
proof -
  have a: "toISOString (TimeClip t_new) = Inr (iso_date (Day t_new) @ CHR ''T'' # iso_time (t_new mod msPerDay))"
    using assms by (simp add: toISOString_valid clock_ok_def)
  have b: "toISOString (TimeClip (t_now - 5 * 365 * 24 * 60 * 60 * 1000))
           = Inr (iso_date (Day t_now - 1825) @ CHR ''T'' # iso_time ((t_now - 5 * 365 * 24 * 60 * 60 * 1000) mod msPerDay))"
    using assms Day_five_years [of t_now] by (simp add: toISOString_valid clock_ok_def)
  obtain obs where r: "returned (fetchFredSeries h ''CPALTT01USM657N'' (Some (iso_date (Day t_now - 1825))) (Some (iso_date (Day t_new)))) = Inr obs"
    using fetchFredSeries_resolves by blast
  show ?thesis
    unfolding fetchCPIData_def pipeline_of_def a b
    by (simp add: split_T_0_iso Let_def r normalizer_def)
qed

lemma fetchUnemploymentData_shape:
  assumes "clock_ok t_new t_now"
  shows "fetchUnemploymentData h t_new t_now =
         pipeline_of h ''UNRATE'' (iso_date (Day t_now - 1825)) (iso_date (Day t_new))"
proof -
  have a: "toISOString (TimeClip t_new) = Inr (iso_date (Day t_new) @ CHR ''T'' # iso_time (t_new mod msPerDay))"
    using assms by (simp add: toISOString_valid clock_ok_def)
  have b: "toISOString (TimeClip (t_now - 5 * 365 * 24 * 60 * 60 * 1000))
           = Inr (iso_date (Day t_now - 1825) @ CHR ''T'' # iso_time ((t_now - 5 * 365 * 24 * 60 * 60 * 1000) mod msPerDay))"
    using assms Day_five_years [of t_now] by (simp add: toISOString_valid clock_ok_def)
  obtain obs where r: "returned (fetchFredSeries h ''UNRATE'' (Some (iso_date (Day t_now - 1825))) (Some (iso_date (Day t_new)))) = Inr obs"
    using fetchFredSeries_resolves by blast
  show ?thesis
    unfolding fetchUnemploymentData_def pipeline_of_def a b
    by (simp add: split_T_0_iso Let_def r normalizer_def)
qed

lemma fetch10YearTreasuryData_shape:
  assumes "clock_ok t_new t_now"
  shows "fetch10YearTreasuryData h t_new t_now =
         pipeline_of h ''GS10'' (iso_date (Day t_now - 1825)) (iso_date (Day t_new))"
proof -
  have a: "toISOString (TimeClip t_new) = Inr (iso_date (Day t_new) @ CHR ''T'' # iso_time (t_new mod msPerDay))"
    using assms by (simp add: toISOString_valid clock_ok_def)
  have b: "toISOString (TimeClip (t_now - 5 * 365 * 24 * 60 * 60 * 1000))
           = Inr (iso_date (Day t_now - 1825) @ CHR ''T'' # iso_time ((t_now - 5 * 365 * 24 * 60 * 60 * 1000) mod msPerDay))"
    using assms Day_five_years [of t_now] by (simp add: toISOString_valid clock_ok_def)
  obtain obs where r: "returned (fetchFredSeries h ''GS10'' (Some (iso_date (Day t_now - 1825))) (Some (iso_date (Day t_new)))) = Inr obs"
    using fetchFredSeries_resolves by blast
  show ?thesis
    unfolding fetch10YearTreasuryData_def pipeline_of_def a b
    by (simp add: split_T_0_iso Let_def r normalizer_def)
qed

lemma fetch3MonthTreasuryData_shape:
  assumes "clock_ok t_new t_now"
  shows "fetch3MonthTreasuryData h t_new t_now =
         pipeline_of h ''TB3MS'' (iso_date (Day t_now - 1825)) (iso_date (Day t_new))"
proof -
  have a: "toISOString (TimeClip t_new) = Inr (iso_date (Day t_new) @ CHR ''T'' # iso_time (t_new mod msPerDay))"
    using assms by (simp add: toISOString_valid clock_ok_def)
  have b: "toISOString (TimeClip (t_now - 5 * 365 * 24 * 60 * 60 * 1000))
           = Inr (iso_date (Day t_now - 1825) @ CHR ''T'' # iso_time ((t_now - 5 * 365 * 24 * 60 * 60 * 1000) mod msPerDay))"
    using assms Day_five_years [of t_now] by (simp add: toISOString_valid clock_ok_def)
  obtain obs where r: "returned (fetchFredSeries h ''TB3MS'' (Some (iso_date (Day t_now - 1825))) (Some (iso_date (Day t_new)))) = Inr obs"
    using fetchFredSeries_resolves by blast
  show ?thesis
    unfolding fetch3MonthTreasuryData_def pipeline_of_def a b
    by (simp add: split_T_0_iso Let_def r normalizer_def)
qed

lemma pipelines_shape:
  assumes "(sid, f) \<in> set pipelines" and "clock_ok t_new t_now"
  shows "f h t_new t_now = pipeline_of h sid (iso_date (Day t_now - 1825)) (iso_date (Day t_new))"
  using assms fetchCPIData_shape fetchUnemploymentData_shape fetch10YearTreasuryData_shape
    fetch3MonthTreasuryData_shape
  by (auto simp: pipelines_def)

lemma pipeline_of_returned:
  assumes "returned (fetchFredSeries h sid (Some sd) (Some ed)) = Inr obs"
  shows "returned (pipeline_of h sid sd ed) = Inr (map (normalizer h) obs)"
  using assms by (simp add: pipeline_of_def Let_def)

lemma fetch_series_ok:
  assumes "configured h key" and "net h (request_url sid key sd ed) = Responded r"
    and "ok r" and "body r = Series d"
  shows "returned (fetchFredSeries h sid sd ed) = Inr (filter (\<lambda>obs. \<not> sentinel obs) (observations d))"
  using assms by (simp add: fetchFredSeries_configured try_block_def sentinel_def)

lemma pipeline_series_ok:
  assumes "(sid, f) \<in> set pipelines" and "clock_ok t_new t_now" and "configured h key"
    and "net h (pipeline_url sid key t_new t_now) = Responded r"
    and "ok r" and "body r = Series d"
  shows "returned (f h t_new t_now) =
         Inr (map (normalizer h) (filter (\<lambda>obs. \<not> sentinel obs) (observations d)))"
proof -
  have "returned (fetchFredSeries h sid (Some (iso_date (Day t_now - 1825))) (Some (iso_date (Day t_new))))
        = Inr (filter (\<lambda>obs. \<not> sentinel obs) (observations d))"
    using assms(3-6) unfolding pipeline_url_def by (rule fetch_series_ok)
  then show ?thesis
    using pipelines_shape [OF assms(1,2)] by (simp add: pipeline_of_returned)
qed

subsection \<open>Filtering of sentinel observations\<close>

text \<open>
  C1: Whatever the upstream answers, no observation that \<^verbatim>\<open>fetchFredSeries\<close> returns has the
  sentinel value \<^verbatim>\<open>.\<close>. Each of the four pipelines returns the normalisations, in order, of
  the very observations that its call of \<^verbatim>\<open>fetchFredSeries\<close> returned, none of them a
  sentinel; and when the upstream answers the pipeline's request with a series, these are
  the observations of the response whose value is not \<^verbatim>\<open>.\<close>, so that no point derives from
  a sentinel observation.
\<close>

theorem no_sentinel_in_output:
  "(\<exists>obs. returned (fetchFredSeries h sid sd ed) = Inr obs \<and> (\<forall>x \<in> set obs. obs_value x \<noteq> ''.''))
   \<and> (\<forall>(s, f) \<in> set pipelines. clock_ok t_new t_now \<longrightarrow>
         (\<exists>obs. returned (fetchFredSeries h s (Some (iso_date (Day t_now - 1825)))
                            (Some (iso_date (Day t_new)))) = Inr obs
                \<and> returned (f h t_new t_now) = Inr (map (normalizer h) obs)
                \<and> (\<forall>x \<in> set obs. obs_value x \<noteq> ''.'')))
   \<and> (\<forall>(s, f) \<in> set pipelines. \<forall>key r d.
         clock_ok t_new t_now \<and> configured h key
         \<and> net h (pipeline_url s key t_new t_now) = Responded r \<and> ok r \<and> body r = Series d
         \<longrightarrow> returned (f h t_new t_now)
               = Inr (map (normalizer h) (filter (\<lambda>x. obs_value x \<noteq> ''.'') (observations d))))"
proof (intro conjI)
  show "\<exists>obs. returned (fetchFredSeries h sid sd ed) = Inr obs \<and> (\<forall>x \<in> set obs. obs_value x \<noteq> ''.'')"
    using fetchFredSeries_resolves [of h sid sd ed] fetchFredSeries_no_sentinel [of h sid sd ed]
    by blast
next
  show "\<forall>(s, f) \<in> set pipelines. clock_ok t_new t_now \<longrightarrow>
         (\<exists>obs. returned (fetchFredSeries h s (Some (iso_date (Day t_now - 1825)))
                            (Some (iso_date (Day t_new)))) = Inr obs
                \<and> returned (f h t_new t_now) = Inr (map (normalizer h) obs)
                \<and> (\<forall>x \<in> set obs. obs_value x \<noteq> ''.''))"
  proof (clarify)
    fix s f
    assume m: "(s, f) \<in> set pipelines" and c: "clock_ok t_new t_now"
    let ?sd = "iso_date (Day t_now - 1825)" and ?ed = "iso_date (Day t_new)"
    obtain obs where o: "returned (fetchFredSeries h s (Some ?sd) (Some ?ed)) = Inr obs"
      using fetchFredSeries_resolves by blast
    have "returned (f h t_new t_now) = Inr (map (normalizer h) obs)"
      using pipelines_shape [OF m c] pipeline_of_returned [OF o] by simp
    moreover have "\<forall>x \<in> set obs. obs_value x \<noteq> ''.''"
      using o by (rule fetchFredSeries_no_sentinel)
    ultimately show "\<exists>obs. returned (fetchFredSeries h s (Some ?sd) (Some ?ed)) = Inr obs
                \<and> returned (f h t_new t_now) = Inr (map (normalizer h) obs)
                \<and> (\<forall>x \<in> set obs. obs_value x \<noteq> ''.'')"
      using o by blast
  qed
next
  show "\<forall>(s, f) \<in> set pipelines. \<forall>key r d.
         clock_ok t_new t_now \<and> configured h key
         \<and> net h (pipeline_url s key t_new t_now) = Responded r \<and> ok r \<and> body r = Series d
         \<longrightarrow> returned (f h t_new t_now)
               = Inr (map (normalizer h) (filter (\<lambda>x. obs_value x \<noteq> ''.'') (observations d)))"
  proof (intro ballI, clarify)
    fix s f key r d
    assume m: "(s, f) \<in> set pipelines" and c: "clock_ok t_new t_now" and k: "configured h key"
      and n: "net h (pipeline_url s key t_new t_now) = Responded r" and o: "ok r"
      and b: "body r = Series d"
    have e: "(\<lambda>obs. \<not> sentinel obs) = (\<lambda>x. obs_value x \<noteq> ''.'')"
      by (simp add: sentinel_def)
    show "returned (f h t_new t_now)
          = Inr (map (normalizer h) (filter (\<lambda>x. obs_value x \<noteq> ''.'') (observations d)))"
      using pipeline_series_ok [OF m c k n o b] unfolding e .
  qed
qed

theorem no_sentinel_in_output_witness:
  "(''UNRATE'', fetchUnemploymentData) \<in> set pipelines
   \<and> clock_ok 1793692800123 1793692800124
   \<and> configured (example_host (series_response example_observations) 0) ''abcdef0123456789''
   \<and> ok \<lparr>status = 200, body = Series \<lparr>observations = example_observations\<rparr>\<rparr>
   \<and> returned (fetchUnemploymentData (example_host (series_response example_observations) 0)
         1793692800123 1793692800124)
      = Inr (map (normalizer (example_host (series_response example_observations) 0))
               [\<lparr>obs_date = ''2020-01-01'', obs_value = ''3.6''\<rparr>,
                \<lparr>obs_date = ''2020-03-01'', obs_value = ''4.4''\<rparr>])
   \<and> (\<exists>obs. returned (fetchFredSeries (example_host (series_response example_observations) 0)
                  ''UNRATE'' (Some (iso_date (Day 1793692800124 - 1825)))
                  (Some (iso_date (Day 1793692800123)))) = Inr obs
            \<and> returned (fetchUnemploymentData (example_host (series_response example_observations) 0)
                  1793692800123 1793692800124)
              = Inr (map (normalizer (example_host (series_response example_observations) 0)) obs)
            \<and> (\<forall>x \<in> set obs. obs_value x \<noteq> ''.''))
   \<and> (\<exists>obs. returned (fetchFredSeries (example_host (series_response example_observations) 0)
                        ''UNRATE'' None None) = Inr obs
            \<and> (\<forall>x \<in> set obs. obs_value x \<noteq> ''.''))"
proof -
  let ?h = "example_host (series_response example_observations) 0"
  let ?r = "\<lparr>status = 200, body = Series \<lparr>observations = example_observations\<rparr>\<rparr>"
  let ?kept = "[\<lparr>obs_date = ''2020-01-01'', obs_value = ''3.6''\<rparr>,
                \<lparr>obs_date = ''2020-03-01'', obs_value = ''4.4''\<rparr>]"
  have m: "(''UNRATE'', fetchUnemploymentData) \<in> set pipelines"
    by (simp add: pipelines_def)
  have c: "clock_ok 1793692800123 1793692800124"
    by (simp add: clock_ok_def)
  have k: "configured ?h ''abcdef0123456789''"
    by (simp add: configured_def example_host_def)
  have n: "net ?h (pipeline_url ''UNRATE'' ''abcdef0123456789'' 1793692800123 1793692800124) = Responded ?r"
    by (simp add: example_host_def series_response_def)
  have o: "ok ?r" by (simp add: ok_def)
  have b: "body ?r = Series \<lparr>observations = example_observations\<rparr>" by simp
  have fl: "filter (\<lambda>x. obs_value x \<noteq> ''.'') (observations \<lparr>observations = example_observations\<rparr>) = ?kept"
    by (simp add: example_observations_def)
  note th = no_sentinel_in_output [of ?h "''UNRATE''" None None 1793692800123 1793692800124]
  note th1 = th [THEN conjunct1]
  note th2 = th [THEN conjunct2, THEN conjunct1, THEN bspec, OF m, simplified prod.case, THEN mp, OF c]
  note th3 = th [THEN conjunct2, THEN conjunct2, THEN bspec, OF m, simplified prod.case,
      THEN spec, THEN spec, THEN spec, THEN mp, OF conjI [OF c conjI [OF k conjI [OF n conjI [OF o b]]]]]
  have p: "returned (fetchUnemploymentData ?h 1793692800123 1793692800124)
        = Inr (map (normalizer ?h) ?kept)"
    using th3 unfolding fl .
  show ?thesis
    by (intro conjI m c k o p th1 th2)
qed

subsection \<open>Count and order of the points\<close>

text \<open>
  C2: When the credential is configured and the upstream answers a pipeline's request with a
  success status and a series of N observations, M of them with the sentinel value, the
  pipeline resolves with exactly N - M points: the normalisations of the observations that are
  not sentinels, in the order of the response.
\<close>

theorem pipeline_count_and_order:
  assumes "(sid, f) \<in> set pipelines" and "clock_ok t_new t_now" and "configured h key"
    and "net h (pipeline_url sid key t_new t_now) = Responded r"
    and "ok r" and "body r = Series d"
  shows "\<exists>pts. returned (f h t_new t_now) = Inr pts
           \<and> pts = map (normalizer h) (filter (\<lambda>obs. \<not> sentinel obs) (observations d))
           \<and> length pts = length (observations d) - length (filter sentinel (observations d))
           \<and> length pts + length (filter sentinel (observations d)) = length (observations d)"
proof -
  let ?obs = "observations d"
  have r: "returned (f h t_new t_now) = Inr (map (normalizer h) (filter (\<lambda>obs. \<not> sentinel obs) ?obs))"
    using assms by (rule pipeline_series_ok)
  have n: "length (filter sentinel ?obs) + length (filter (\<lambda>obs. \<not> sentinel obs) ?obs) = length ?obs"
    by (rule sum_length_filter_compl)
  from r n show ?thesis by simp
qed

theorem pipeline_count_and_order_witness:
  "(''UNRATE'', fetchUnemploymentData) \<in> set pipelines
   \<and> clock_ok 1793692800123 1793692800124
   \<and> configured (example_host (series_response example_observations) 0) ''abcdef0123456789''
   \<and> ok \<lparr>status = 200, body = Series \<lparr>observations = example_observations\<rparr>\<rparr>
   \<and> length example_observations = 3
   \<and> length (filter sentinel example_observations) = 1
   \<and> (\<exists>pts. returned (fetchUnemploymentData (example_host (series_response example_observations) 0)
                        1793692800123 1793692800124) = Inr pts
            \<and> pts = map (normalizer (example_host (series_response example_observations) 0))
                      [\<lparr>obs_date = ''2020-01-01'', obs_value = ''3.6''\<rparr>,
                       \<lparr>obs_date = ''2020-03-01'', obs_value = ''4.4''\<rparr>]
            \<and> length pts = 2)"
proof -
  let ?h = "example_host (series_response example_observations) 0"
  let ?r = "\<lparr>status = 200, body = Series \<lparr>observations = example_observations\<rparr>\<rparr>"
  have m: "(''UNRATE'', fetchUnemploymentData) \<in> set pipelines"
    by (simp add: pipelines_def)
  have c: "clock_ok 1793692800123 1793692800124"
    by (simp add: clock_ok_def)
  have k: "configured ?h ''abcdef0123456789''"
    by (simp add: configured_def example_host_def)
  have n: "net ?h (pipeline_url ''UNRATE'' ''abcdef0123456789'' 1793692800123 1793692800124) = Responded ?r"
    by (simp add: example_host_def series_response_def)
  have o: "ok ?r" by (simp add: ok_def)
  have b: "body ?r = Series \<lparr>observations = example_observations\<rparr>" by simp
  have l: "length example_observations = 3" by (simp add: example_observations_def)
  have s: "filter sentinel example_observations = [\<lparr>obs_date = ''2020-02-01'', obs_value = ''.''\<rparr>]"
    by (simp add: example_observations_def sentinel_def)
  have s': "filter (\<lambda>obs. \<not> sentinel obs) example_observations
            = [\<lparr>obs_date = ''2020-01-01'', obs_value = ''3.6''\<rparr>,
               \<lparr>obs_date = ''2020-03-01'', obs_value = ''4.4''\<rparr>]"
    by (simp add: example_observations_def sentinel_def)
  from pipeline_count_and_order [OF m c k n o b] m c k o l s s' show ?thesis by simp
qed

subsection \<open>The end-to-end example and the host's time zone\<close>

text \<open>The numbers that the literals 3.6 and 4.4 denote.\<close>

lemma double_examples:
  "double 3.6 = Number (8106479329266893 / 2 ^ 51)"
  "double 4.4 = Number (4953959590107546 / 2 ^ 50)"
  "parseFloat ''3.6'' = double 3.6"
  "parseFloat ''4.4'' = double 4.4"
  by code_simp+

lemma normalizer_example_utc:
  "map (normalizer (example_host outcome 0))
     [\<lparr>obs_date = ''2020-01-01'', obs_value = ''3.6''\<rparr>,
      \<lparr>obs_date = ''2020-03-01'', obs_value = ''4.4''\<rparr>]
   = [\<lparr>point_date = ''Jan 2020'', point_value = double 3.6\<rparr>,
      \<lparr>point_date = ''Mar 2020'', point_value = double 4.4\<rparr>]"
  by code_simp

lemma example_not_sentinel:
  "filter (\<lambda>obs. \<not> sentinel obs) example_observations
   = [\<lparr>obs_date = ''2020-01-01'', obs_value = ''3.6''\<rparr>,
      \<lparr>obs_date = ''2020-03-01'', obs_value = ''4.4''\<rparr>]"
  by (simp add: example_observations_def sentinel_def)

lemma example_pipeline_utc:
  assumes "(sid, f) \<in> set pipelines" and "clock_ok t_new t_now"
  shows "returned (f (example_host (series_response example_observations) 0) t_new t_now)
         = Inr [\<lparr>point_date = ''Jan 2020'', point_value = double 3.6\<rparr>,
                \<lparr>point_date = ''Mar 2020'', point_value = double 4.4\<rparr>]"
proof -
  let ?h = "example_host (series_response example_observations) 0"
  let ?r = "\<lparr>status = 200, body = Series \<lparr>observations = example_observations\<rparr>\<rparr>"
  have k: "configured ?h ''abcdef0123456789''"
    by (simp add: configured_def example_host_def)
  have n: "net ?h (pipeline_url sid ''abcdef0123456789'' t_new t_now) = Responded ?r"
    by (simp add: example_host_def series_response_def)
  have o: "ok ?r" by (simp add: ok_def)
  have b: "body ?r = Series \<lparr>observations = example_observations\<rparr>" by simp
  have "returned (f ?h t_new t_now)
        = Inr (map (normalizer ?h) (filter (\<lambda>obs. \<not> sentinel obs) (observations \<lparr>observations = example_observations\<rparr>)))"
    using assms k n o b by (rule pipeline_series_ok)
  then show ?thesis
    by (simp only: FredSeriesResponse.select_convs example_not_sentinel normalizer_example_utc)
qed

lemma unemployment_example_utc:
  "returned (fetchUnemploymentData (example_host (series_response example_observations) 0)
      1793692800123 1793692800124)
   = Inr [\<lparr>point_date = ''Jan 2020'', point_value = double 3.6\<rparr>,
          \<lparr>point_date = ''Mar 2020'', point_value = double 4.4\<rparr>]"
  by (rule example_pipeline_utc [of "''UNRATE''"]) (simp_all add: pipelines_def clock_ok_def)

text \<open>
  C3: The pipeline labels each point with the month and year of its observation date; for
  UNRATE and the observations 2020-01-01 (3.6), 2020-02-01 (sentinel), 2020-03-01 (4.4) the
  output is Jan 2020 (3.6), Mar 2020 (4.4). On a host whose local time is five hours behind
  UTC the code does otherwise: the date is read as midnight UTC and written in local time,
  so the labels are those of the month before.
\<close>

theorem unemployment_example_west_of_utc:
  "returned (fetchUnemploymentData
      (example_host (series_response example_observations) (- 5 * 60 * 60 * 1000))
      1793692800123 1793692800124)
   = Inr [\<lparr>point_date = ''Dec 2019'', point_value = double 3.6\<rparr>,
          \<lparr>point_date = ''Feb 2020'', point_value = double 4.4\<rparr>]"
  by code_simp

subsection \<open>The credential guard\<close>

text \<open>
  C4: If the credential is absent or is the placeholder \<^verbatim>\<open>your_fred_api_key_here\<close>, then
  \<^verbatim>\<open>fetchFredSeries\<close> resolves with the empty sequence and calls \<^verbatim>\<open>fetch\<close> not once,
  whatever the series identifier and the optional dates.
\<close>

theorem unconfigured_no_network:
  assumes "API_KEY h = None \<or> API_KEY h = Some ''your_fred_api_key_here''"
  shows "returned (fetchFredSeries h sid sd ed) = Inr []
         \<and> calls (fetchFredSeries h sid sd ed) = []
         \<and> length (calls (fetchFredSeries h sid sd ed)) = 0"
  using assms fetchFredSeries_unconfigured [of h sid sd ed] by auto

theorem unconfigured_no_network_witness:
  "API_KEY (example_host (series_response example_observations) 0
      \<lparr>API_KEY := Some ''your_fred_api_key_here''\<rparr>) = Some ''your_fred_api_key_here''
   \<and> returned (fetchFredSeries (example_host (series_response example_observations) 0
        \<lparr>API_KEY := Some ''your_fred_api_key_here''\<rparr>) ''UNRATE'' (Some ''2020-01-01'') (Some ''2020-03-01''))
     = Inr []
   \<and> calls (fetchFredSeries (example_host (series_response example_observations) 0
        \<lparr>API_KEY := Some ''your_fred_api_key_here''\<rparr>) ''UNRATE'' (Some ''2020-01-01'') (Some ''2020-03-01''))
     = []
   \<and> API_KEY (example_host (series_response example_observations) 0 \<lparr>API_KEY := None\<rparr>) = None
   \<and> returned (fetchFredSeries (example_host (series_response example_observations) 0
        \<lparr>API_KEY := None\<rparr>) ''UNRATE'' None None) = Inr []
   \<and> calls (fetchFredSeries (example_host (series_response example_observations) 0
        \<lparr>API_KEY := None\<rparr>) ''UNRATE'' None None) = []"
proof -
  let ?p = "example_host (series_response example_observations) 0
      \<lparr>API_KEY := Some ''your_fred_api_key_here''\<rparr>"
  let ?n = "example_host (series_response example_observations) 0 \<lparr>API_KEY := None\<rparr>"
  have p: "API_KEY ?p = None \<or> API_KEY ?p = Some ''your_fred_api_key_here''" by simp
  have n: "API_KEY ?n = None \<or> API_KEY ?n = Some ''your_fred_api_key_here''" by simp
  from unconfigured_no_network [OF p, of "''UNRATE''" "Some ''2020-01-01''" "Some ''2020-03-01''"]
    unconfigured_no_network [OF n, of "''UNRATE''" None None]
  show ?thesis by simp
qed

subsection \<open>Failed requests\<close>

text \<open>
  C5: When the upstream answers a pipeline's request with a status outside 200 to 299, the
  \<^verbatim>\<open>try\<close> block throws an error whose message carries the status code, the Fetcher catches
  it, and the pipeline resolves with the empty sequence: the same value it resolves with
  when the credential is not configured.
\<close>

theorem failed_status_gives_empty:
  assumes "(sid, f) \<in> set pipelines" and "clock_ok t_new t_now" and "configured h key"
    and "net h (pipeline_url sid key t_new t_now) = Responded r" and "\<not> ok r"
  shows "try_block h (pipeline_url sid key t_new t_now)
           = Inl (Error (''FRED API error: '' @ decimal (status r)))
         \<and> returned (f h t_new t_now) = Inr []
         \<and> returned (f (h\<lparr>API_KEY := None\<rparr>) t_new t_now) = returned (f h t_new t_now)"
proof -
  let ?sd = "iso_date (Day t_now - 1825)" and ?ed = "iso_date (Day t_new)"
  have t: "try_block h (pipeline_url sid key t_new t_now)
           = Inl (Error (''FRED API error: '' @ decimal (status r)))"
    using assms(4,5) by (simp add: try_block_def)
  have "returned (fetchFredSeries h sid (Some ?sd) (Some ?ed)) = Inr []"
    using t assms(3) by (simp add: fetchFredSeries_configured pipeline_url_def)
  then have a: "returned (f h t_new t_now) = Inr []"
    using pipelines_shape [OF assms(1,2), of h] by (simp add: pipeline_of_returned)
  have "returned (fetchFredSeries (h\<lparr>API_KEY := None\<rparr>) sid (Some ?sd) (Some ?ed)) = Inr []"
    by (simp add: fetchFredSeries_unconfigured)
  then have b: "returned (f (h\<lparr>API_KEY := None\<rparr>) t_new t_now) = Inr []"
    using pipelines_shape [OF assms(1,2), of "h\<lparr>API_KEY := None\<rparr>"]
    by (simp add: pipeline_of_returned)
  from t a b show ?thesis by simp
qed

theorem failed_status_gives_empty_witness:
  "(''GS10'', fetch10YearTreasuryData) \<in> set pipelines
   \<and> clock_ok 1793692800123 1793692800124
   \<and> configured (example_host (Responded \<lparr>status = 500, body = NotJson\<rparr>) 0) ''abcdef0123456789''
   \<and> \<not> ok \<lparr>status = 500, body = NotJson\<rparr>
   \<and> try_block (example_host (Responded \<lparr>status = 500, body = NotJson\<rparr>) 0)
        (pipeline_url ''GS10'' ''abcdef0123456789'' 1793692800123 1793692800124)
      = Inl (Error ''FRED API error: 500'')
   \<and> returned (fetch10YearTreasuryData (example_host (Responded \<lparr>status = 500, body = NotJson\<rparr>) 0)
        1793692800123 1793692800124) = Inr []
   \<and> returned (fetch10YearTreasuryData
        (example_host (Responded \<lparr>status = 500, body = NotJson\<rparr>) 0 \<lparr>API_KEY := None\<rparr>)
        1793692800123 1793692800124) = Inr []"
proof -
  let ?r = "\<lparr>status = 500, body = NotJson\<rparr>"
  let ?h = "example_host (Responded ?r) 0"
  have m: "(''GS10'', fetch10YearTreasuryData) \<in> set pipelines"
    by (simp add: pipelines_def)
  have c: "clock_ok 1793692800123 1793692800124"
    by (simp add: clock_ok_def)
  have k: "configured ?h ''abcdef0123456789''"
    by (simp add: configured_def example_host_def)
  have n: "net ?h (pipeline_url ''GS10'' ''abcdef0123456789'' 1793692800123 1793692800124) = Responded ?r"
    by (simp add: example_host_def)
  have o: "\<not> ok ?r" by (simp add: ok_def)
  have d: "decimal (status ?r) = ''500''" by code_simp
  from failed_status_gives_empty [OF m c k n o] m c k o d show ?thesis by simp
qed

subsection \<open>Absorption of failures\<close>



subsection \<open>A body that is not JSON\<close>

text \<open>
  C7, as stated: a \<^verbatim>\<open>SyntaxError\<close> from a response body that is not JSON is not handled and
  leaves \<^verbatim>\<open>fetchFredSeries\<close> as a rejection. It does not: \<^verbatim>\<open>response.json()\<close> is awaited
  inside the \<^verbatim>\<open>try\<close> block.
\<close>

theorem malformed_body_does_not_propagate:
  "try_block (example_host (Responded \<lparr>status = 200, body = NotJson\<rparr>) 0)
      (request_url ''UNRATE'' ''abcdef0123456789'' None None) = Inl SyntaxError
   \<and> returned (fetchFredSeries (example_host (Responded \<lparr>status = 200, body = NotJson\<rparr>) 0)
        ''UNRATE'' None None) \<noteq> Inl SyntaxError
   \<and> returned (fetchFredSeries (example_host (Responded \<lparr>status = 200, body = NotJson\<rparr>) 0)
        ''UNRATE'' None None) = Inr []"
  by (simp add: fetchFredSeries_def try_block_def example_host_def falsy_def ok_def Let_def)

text \<open>
  C7, amended: a \<^verbatim>\<open>SyntaxError\<close> from a response body that is not JSON is thrown inside the
  \<^verbatim>\<open>try\<close> block of \<^verbatim>\<open>fetchFredSeries\<close>, caught there and logged, and the Fetcher resolves
  with the empty sequence.
\<close>

theorem malformed_body_absorbed:
  assumes "configured h key" and "net h (request_url sid key sd ed) = Responded r"
    and "ok r" and "body r = NotJson"
  shows "try_block h (request_url sid key sd ed) = Inl SyntaxError
         \<and> fetchFredSeries h sid sd ed =
             \<lparr>returned = Inr [], calls = [request_url sid key sd ed],
              console = [ErrorLog ''Error fetching FRED data:'' SyntaxError]\<rparr>"
proof -
  have t: "try_block h (request_url sid key sd ed) = Inl SyntaxError"
    using assms(2-4) by (simp add: try_block_def)
  then show ?thesis using assms(1) by (simp add: fetchFredSeries_configured)
qed

theorem malformed_body_absorbed_witness:
  "configured (example_host (Responded \<lparr>status = 200, body = NotJson\<rparr>) 0) ''abcdef0123456789''
   \<and> ok \<lparr>status = 200, body = NotJson\<rparr>
   \<and> returned (fetchFredSeries (example_host (Responded \<lparr>status = 200, body = NotJson\<rparr>) 0)
        ''UNRATE'' (Some ''2020-01-01'') None) = Inr []
   \<and> console (fetchFredSeries (example_host (Responded \<lparr>status = 200, body = NotJson\<rparr>) 0)
        ''UNRATE'' (Some ''2020-01-01'') None) = [ErrorLog ''Error fetching FRED data:'' SyntaxError]"
proof -
  let ?r = "\<lparr>status = 200, body = NotJson\<rparr>"
  let ?h = "example_host (Responded ?r) 0"
  have k: "configured ?h ''abcdef0123456789''"
    by (simp add: configured_def example_host_def)
  have n: "net ?h (request_url ''UNRATE'' ''abcdef0123456789'' (Some ''2020-01-01'') None) = Responded ?r"
    by (simp add: example_host_def)
  have o: "ok ?r" by (simp add: ok_def)
  have b: "body ?r = NotJson" by simp
  from malformed_body_absorbed [OF k n o b] k o show ?thesis by simp
qed

subsection \<open>The loading flag\<close>

lemma Promise_all_fulfilled:
  "Promise_all [(w1, Inr v1), (w2, Inr v2), (w3, Inr v3), (w4, Inr v4)]
   = (max w1 (max w2 (max w3 w4)), Inr [v1, v2, v3, v4])"
  by (simp add: Promise_all_def rejections_def fulfilments_def)

lemma loadData_on_fulfilled:
  "loadData_on (w1, Inr v1) (w2, Inr v2) (w3, Inr v3) (w4, Inr v4)
   = [(0, SetLoading True),
      (max w1 (max w2 (max w3 w4)), SetCpiData v1),
      (max w1 (max w2 (max w3 w4)), SetLaborData v2),
      (max w1 (max w2 (max w3 w4)), SetInterest10YData v3),
      (max w1 (max w2 (max w3 w4)), SetInterest3MData v4),
      (max w1 (max w2 (max w3 w4)), SetLoading False)]"
  unfolding loadData_on_def Promise_all_fulfilled by simp

lemma state_before:
  assumes "t < T"
  shows "state_at [(0, SetLoading True), (T, SetCpiData v1), (T, SetLaborData v2),
            (T, SetInterest10YData v3), (T, SetInterest3MData v4), (T, SetLoading False)] t
         = initial_state"
  using assms by (simp add: state_at_def initial_state_def)

lemma state_after:
  assumes "T \<le> t"
  shows "state_at [(0, SetLoading True), (T, SetCpiData v1), (T, SetLaborData v2),
            (T, SetInterest10YData v3), (T, SetInterest3MData v4), (T, SetLoading False)] t
         = \<lparr>cpiData = v1, laborData = v2, interest10YData = v3, interest3MData = v4,
            loading = False\<rparr>"
  using assms by (simp add: state_at_def initial_state_def)

text \<open>
  C8: When the four pipelines resolve, at distinct times after the mount, the loading flag
  stays set and the four result cells stay empty at every time before the latest of the four
  times; from that time on the flag is cleared and the four cells hold the four results.
\<close>

theorem loading_clears_after_slowest:
  assumes "returned (fetchCPIData h (clock 0) (clock 1)) = Inr cpi"
    and "returned (fetchUnemploymentData h (clock 2) (clock 3)) = Inr unemployment"
    and "returned (fetch10YearTreasuryData h (clock 4) (clock 5)) = Inr treasury10Y"
    and "returned (fetch3MonthTreasuryData h (clock 6) (clock 7)) = Inr treasury3M"
    and "distinct [w1, w2, w3, w4]" and "0 < w1" and "0 < w2" and "0 < w3" and "0 < w4"
  shows "(\<forall>t < max w1 (max w2 (max w3 w4)).
            state_at (loadData h clock w1 w2 w3 w4) t = initial_state
            \<and> loading (state_at (loadData h clock w1 w2 w3 w4) t))
         \<and> (\<forall>t \<ge> max w1 (max w2 (max w3 w4)).
            state_at (loadData h clock w1 w2 w3 w4) t =
              \<lparr>cpiData = cpi, laborData = unemployment, interest10YData = treasury10Y,
               interest3MData = treasury3M, loading = False\<rparr>)"
proof -
  have e: "loadData h clock w1 w2 w3 w4 =
      [(0, SetLoading True),
       (max w1 (max w2 (max w3 w4)), SetCpiData cpi),
       (max w1 (max w2 (max w3 w4)), SetLaborData unemployment),
       (max w1 (max w2 (max w3 w4)), SetInterest10YData treasury10Y),
       (max w1 (max w2 (max w3 w4)), SetInterest3MData treasury3M),
       (max w1 (max w2 (max w3 w4)), SetLoading False)]"
    unfolding loadData_def assms(1-4) by (rule loadData_on_fulfilled)
  have i: "loading initial_state" by (simp add: initial_state_def)
  show ?thesis
    unfolding e using i by (simp add: state_before state_after)
qed

theorem loading_clears_after_slowest_witness:
  "distinct [40, 10, 30, 20 :: nat]
   \<and> max 40 (max 10 (max 30 20)) = (40 :: nat)
   \<and> loading (state_at (loadData (example_host (series_response example_observations) 0)
         (\<lambda>k. 1793692800123 + int k) 40 10 30 20) 39)
   \<and> cpiData (state_at (loadData (example_host (series_response example_observations) 0)
         (\<lambda>k. 1793692800123 + int k) 40 10 30 20) 39) = []
   \<and> state_at (loadData (example_host (series_response example_observations) 0)
         (\<lambda>k. 1793692800123 + int k) 40 10 30 20) 40
      = \<lparr>cpiData = [\<lparr>point_date = ''Jan 2020'', point_value = double 3.6\<rparr>,
                      \<lparr>point_date = ''Mar 2020'', point_value = double 4.4\<rparr>],
         laborData = [\<lparr>point_date = ''Jan 2020'', point_value = double 3.6\<rparr>,
                      \<lparr>point_date = ''Mar 2020'', point_value = double 4.4\<rparr>],
         interest10YData = [\<lparr>point_date = ''Jan 2020'', point_value = double 3.6\<rparr>,
                      \<lparr>point_date = ''Mar 2020'', point_value = double 4.4\<rparr>],
         interest3MData = [\<lparr>point_date = ''Jan 2020'', point_value = double 3.6\<rparr>,
                      \<lparr>point_date = ''Mar 2020'', point_value = double 4.4\<rparr>],
         loading = False\<rparr>"
proof -
  let ?h = "example_host (series_response example_observations) 0"
  let ?c = "\<lambda>k. 1793692800123 + int k"
  let ?pts = "[\<lparr>point_date = ''Jan 2020'', point_value = double 3.6\<rparr>,
               \<lparr>point_date = ''Mar 2020'', point_value = double 4.4\<rparr>]"
  have p1: "returned (fetchCPIData ?h (?c 0) (?c 1)) = Inr ?pts"
    by (rule example_pipeline_utc [of "''CPALTT01USM657N''"]) (simp_all add: pipelines_def clock_ok_def)
  have p2: "returned (fetchUnemploymentData ?h (?c 2) (?c 3)) = Inr ?pts"
    by (rule example_pipeline_utc [of "''UNRATE''"]) (simp_all add: pipelines_def clock_ok_def)
  have p3: "returned (fetch10YearTreasuryData ?h (?c 4) (?c 5)) = Inr ?pts"
    by (rule example_pipeline_utc [of "''GS10''"]) (simp_all add: pipelines_def clock_ok_def)
  have p4: "returned (fetch3MonthTreasuryData ?h (?c 6) (?c 7)) = Inr ?pts"
    by (rule example_pipeline_utc [of "''TB3MS''"]) (simp_all add: pipelines_def clock_ok_def)
  have d: "distinct [40, 10, 30, 20 :: nat]" by simp
  have m: "max 40 (max 10 (max 30 20)) = (40 :: nat)" by simp
  have z: "(0 :: nat) < 40" "(0 :: nat) < 10" "(0 :: nat) < 30" "(0 :: nat) < 20" by simp_all
  note th = loading_clears_after_slowest [OF p1 p2 p3 p4 d z, unfolded m]
  from th have a: "state_at (loadData ?h ?c 40 10 30 20) 39 = initial_state"
    by simp
  from th have b: "state_at (loadData ?h ?c 40 10 30 20) 40 =
              \<lparr>cpiData = ?pts, laborData = ?pts, interest10YData = ?pts,
               interest3MData = ?pts, loading = False\<rparr>"
    by simp
  from d m show ?thesis unfolding a b by (simp add: initial_state_def)
qed

subsection \<open>The request window of the pipelines\<close>

lemma pipeline_of_calls:
  assumes "configured h key"
  shows "calls (pipeline_of h sid sd ed) = [request_url sid key (Some sd) (Some ed)]"
  using assms
  by (simp add: pipeline_of_def Let_def fetchFredSeries_configured split: sum.splits)

lemma request_url_dates:
  "request_url sid key (Some (iso_date a)) (Some (iso_date b)) =
     \<lparr>base = ''https://api.stlouisfed.org/fred/series/observations'',
      searchParams = [(''series_id'', sid), (''api_key'', key), (''file_type'', ''json''),
                      (''observation_start'', iso_date a), (''observation_end'', iso_date b)]\<rparr>"
  by (simp add: request_url_def params_def truthy_def iso_date_not_empty FRED_API_BASE_def)

text \<open>
  C9: Each of the four pipelines calls the Fetcher with its own series identifier, with the
  UTC date of the clock reading as end date, and with the UTC date of the day 1825 days
  (five times 365 days) before the clock reading as start date; the four calls differ in the
  series identifier only. With a configured credential the one request of each pipeline
  carries these two dates as \<^verbatim>\<open>observation_start\<close> and \<^verbatim>\<open>observation_end\<close>.
\<close>

theorem pipelines_window:
  assumes "clock_ok t_new t_now"
  shows "fetchCPIData h t_new t_now =
           pipeline_of h ''CPALTT01USM657N'' (iso_date (Day t_now - 1825)) (iso_date (Day t_new))
         \<and> fetchUnemploymentData h t_new t_now =
           pipeline_of h ''UNRATE'' (iso_date (Day t_now - 1825)) (iso_date (Day t_new))
         \<and> fetch10YearTreasuryData h t_new t_now =
           pipeline_of h ''GS10'' (iso_date (Day t_now - 1825)) (iso_date (Day t_new))
         \<and> fetch3MonthTreasuryData h t_new t_now =
           pipeline_of h ''TB3MS'' (iso_date (Day t_now - 1825)) (iso_date (Day t_new))
         \<and> (\<forall>(sid, f) \<in> set pipelines. \<forall>key. configured h key \<longrightarrow>
              calls (f h t_new t_now) =
                [\<lparr>base = ''https://api.stlouisfed.org/fred/series/observations'',
                  searchParams =
                    [(''series_id'', sid), (''api_key'', key), (''file_type'', ''json''),
                     (''observation_start'', iso_date (Day t_now - 1825)),
                     (''observation_end'', iso_date (Day t_new))]\<rparr>])"
proof (intro conjI)
  show "\<forall>(sid, f) \<in> set pipelines. \<forall>key. configured h key \<longrightarrow>
              calls (f h t_new t_now) =
                [\<lparr>base = ''https://api.stlouisfed.org/fred/series/observations'',
                  searchParams =
                    [(''series_id'', sid), (''api_key'', key), (''file_type'', ''json''),
                     (''observation_start'', iso_date (Day t_now - 1825)),
                     (''observation_end'', iso_date (Day t_new))]\<rparr>]"
  proof (clarify)
    fix sid f key
    assume m: "(sid, f) \<in> set pipelines" and k: "configured h key"
    show "calls (f h t_new t_now) =
                [\<lparr>base = ''https://api.stlouisfed.org/fred/series/observations'',
                  searchParams =
                    [(''series_id'', sid), (''api_key'', key), (''file_type'', ''json''),
                     (''observation_start'', iso_date (Day t_now - 1825)),
                     (''observation_end'', iso_date (Day t_new))]\<rparr>]"
      unfolding pipelines_shape [OF m assms] pipeline_of_calls [OF k] request_url_dates ..
  qed
qed (rule fetchCPIData_shape fetchUnemploymentData_shape fetch10YearTreasuryData_shape
       fetch3MonthTreasuryData_shape, rule assms)+

lemma example_dates:
  "iso_date (Day 1793692800123) = ''2026-11-03''"
  "iso_date (Day 1793692800124 - 1825) = ''2021-11-04''"
  by code_simp+

theorem pipelines_window_witness:
  "clock_ok 1793692800123 1793692800124
   \<and> (''CPALTT01USM657N'', fetchCPIData) \<in> set pipelines
   \<and> configured (example_host NetworkError 0) ''abcdef0123456789''
   \<and> fetchCPIData (example_host NetworkError 0) 1793692800123 1793692800124
      = pipeline_of (example_host NetworkError 0) ''CPALTT01USM657N'' ''2021-11-04'' ''2026-11-03''
   \<and> fetch3MonthTreasuryData (example_host NetworkError 0) 1793692800123 1793692800124
      = pipeline_of (example_host NetworkError 0) ''TB3MS'' ''2021-11-04'' ''2026-11-03''
   \<and> calls (fetchCPIData (example_host NetworkError 0) 1793692800123 1793692800124)
      = [\<lparr>base = ''https://api.stlouisfed.org/fred/series/observations'',
          searchParams =
            [(''series_id'', ''CPALTT01USM657N''), (''api_key'', ''abcdef0123456789''),
             (''file_type'', ''json''), (''observation_start'', ''2021-11-04''),
             (''observation_end'', ''2026-11-03'')]\<rparr>]"
proof -
  let ?h = "example_host NetworkError 0"
  have c: "clock_ok 1793692800123 1793692800124"
    by (simp add: clock_ok_def)
  have m: "(''CPALTT01USM657N'', fetchCPIData) \<in> set pipelines"
    by (simp add: pipelines_def)
  have k: "configured ?h ''abcdef0123456789''"
    by (simp add: configured_def example_host_def)
  note th = pipelines_window [OF c, of ?h, unfolded example_dates]
  from th have a: "fetchCPIData ?h 1793692800123 1793692800124
      = pipeline_of ?h ''CPALTT01USM657N'' ''2021-11-04'' ''2026-11-03''"
    by (rule conjunct1)
  from th have b: "fetch3MonthTreasuryData ?h 1793692800123 1793692800124
      = pipeline_of ?h ''TB3MS'' ''2021-11-04'' ''2026-11-03''"
    by blast
  from th m k have d: "calls (fetchCPIData ?h 1793692800123 1793692800124)
      = [\<lparr>base = ''https://api.stlouisfed.org/fred/series/observations'',
          searchParams =
            [(''series_id'', ''CPALTT01USM657N''), (''api_key'', ''abcdef0123456789''),
             (''file_type'', ''json''), (''observation_start'', ''2021-11-04''),
             (''observation_end'', ''2026-11-03'')]\<rparr>]"
    by blast
  from c m k a b d show ?thesis by blast
qed

subsection \<open>Values that are not numbers\<close>

lemma filter_position:
  assumes "i < length xs" and "P (xs ! i)"
  shows "length (filter P (take i xs)) < length (filter P xs)
         \<and> filter P xs ! length (filter P (take i xs)) = xs ! i"
proof -
  have "xs = take i xs @ xs ! i # drop (Suc i) xs"
    using assms(1) by (rule id_take_nth_drop)
  then have "filter P xs = filter P (take i xs @ xs ! i # drop (Suc i) xs)"
    by simp
  then have f: "filter P xs = filter P (take i xs) @ xs ! i # filter P (drop (Suc i) xs)"
    using assms(2) by simp
  show ?thesis
    by (subst (1 2) f) (simp add: nth_append)
qed

lemma binary64_not_NaN: "binary64 neg p d \<noteq> NaN"
  by (simp add: binary64_def Let_def)

lemma parseFloat_NaN_iff: "parseFloat s = NaN \<longleftrightarrow> \<not> starts_with_number s"
proof -
  obtain neg u where su: "read_sign (trim_start s) = (neg, u)"
    by (cases "read_sign (trim_start s)")
  show ?thesis
  proof (cases "take 8 u = ''Infinity''")
    case True
    then show ?thesis by (simp add: parseFloat_def starts_with_number_def su)
  next
    case inf: False
    show ?thesis
    proof (cases u)
      case Nil
      then show ?thesis by (simp add: parseFloat_def starts_with_number_def su)
    next
      case (Cons c r)
      show ?thesis
      proof (cases "is_digit c")
        case True
        then have "takeWhile is_digit u \<noteq> []" using Cons by simp
        then show ?thesis
          using inf True Cons
          by (simp add: parseFloat_def starts_with_number_def su Let_def binary64_not_NaN
              split: prod.splits)
      next
        case nd: False
        then have ip: "takeWhile is_digit u = []" and r1: "dropWhile is_digit u = c # r"
          using Cons by simp_all
        show ?thesis
        proof (cases "c = CHR ''.''")
          case False
          then show ?thesis
            using inf nd Cons ip r1
            by (simp add: parseFloat_def starts_with_number_def su Let_def)
        next
          case pt: True
          show ?thesis
          proof (cases r)
            case Nil
            then show ?thesis
              using inf nd Cons ip r1 pt
              by (simp add: parseFloat_def starts_with_number_def su Let_def)
          next
            case (Cons c' r')
            then show ?thesis
              using inf nd \<open>u = c # r\<close> ip r1 pt
              by (cases "is_digit c'")
                 (simp_all add: parseFloat_def starts_with_number_def su Let_def binary64_not_NaN)
          qed
        qed
      qed
    qed
  qed
qed

lemma example_12px:
  "map (normalizer (example_host outcome 0)) [\<lparr>obs_date = ''2020-01-01'', obs_value = ''12px''\<rparr>]
   = [\<lparr>point_date = ''Jan 2020'', point_value = Number 12\<rparr>]"
  by code_simp

text \<open>
  C10, as stated: every observation whose value is not \<^verbatim>\<open>.\<close> and is not a number gives a
  point whose value is \<^verbatim>\<open>NaN\<close>. It does not: \<^verbatim>\<open>12px\<close> is not a number, and
  \<^verbatim>\<open>parseFloat\<close> reads the number it begins with, so the point has the value 12.
\<close>

theorem non_numeric_value_can_parse:
  "\<not> numeric ''12px''
   \<and> ''12px'' \<noteq> ''.''
   \<and> returned (fetchUnemploymentData
         (example_host (series_response [\<lparr>obs_date = ''2020-01-01'', obs_value = ''12px''\<rparr>]) 0)
         1793692800123 1793692800124)
       = Inr [\<lparr>point_date = ''Jan 2020'', point_value = Number 12\<rparr>]
   \<and> Number 12 \<noteq> NaN"
proof -
  let ?obs = "[\<lparr>obs_date = ''2020-01-01'', obs_value = ''12px''\<rparr>]"
  let ?h = "example_host (series_response ?obs) 0"
  let ?r = "\<lparr>status = 200, body = Series \<lparr>observations = ?obs\<rparr>\<rparr>"
  have a: "\<not> numeric ''12px''" by code_simp
  have m: "(''UNRATE'', fetchUnemploymentData) \<in> set pipelines"
    by (simp add: pipelines_def)
  have c: "clock_ok 1793692800123 1793692800124"
    by (simp add: clock_ok_def)
  have k: "configured ?h ''abcdef0123456789''"
    by (simp add: configured_def example_host_def)
  have n: "net ?h (pipeline_url ''UNRATE'' ''abcdef0123456789'' 1793692800123 1793692800124) = Responded ?r"
    by (simp add: example_host_def series_response_def)
  have o: "ok ?r" by (simp add: ok_def)
  have b: "body ?r = Series \<lparr>observations = ?obs\<rparr>" by simp
  have f: "filter (\<lambda>obs. \<not> sentinel obs) (observations \<lparr>observations = ?obs\<rparr>) = ?obs"
    by (simp add: sentinel_def)
  have "returned (fetchUnemploymentData ?h 1793692800123 1793692800124)
        = Inr (map (normalizer ?h) ?obs)"
    using pipeline_series_ok [OF m c k n o b] unfolding f .
  then have p: "returned (fetchUnemploymentData ?h 1793692800123 1793692800124)
        = Inr [\<lparr>point_date = ''Jan 2020'', point_value = Number 12\<rparr>]"
    unfolding example_12px .
  from a p show ?thesis by simp
qed

text \<open>
  C10, amended: Only an observation whose value is exactly \<^verbatim>\<open>.\<close> is dropped. When the
  upstream answers a pipeline's request with a series, an observation at index \<open>i\<close> whose
  value is not \<^verbatim>\<open>.\<close> gets its one point, whatever the value: the pipeline resolves, and
  the point at the index that counts the observations kept before \<open>i\<close> is the normalisation
  of that observation. The value of the point is \<^verbatim>\<open>NaN\<close> exactly when the value string
  does not begin with a number, that is when after leading white space and an optional sign
  there is neither \<^verbatim>\<open>Infinity\<close>, nor a digit, nor a point followed by a digit.
\<close>

theorem non_sentinel_value_kept:
  assumes "(sid, f) \<in> set pipelines" and "clock_ok t_new t_now" and "configured h key"
    and "net h (pipeline_url sid key t_new t_now) = Responded r"
    and "ok r" and "body r = Series d"
    and "i < length (observations d)"
    and "obs_value (observations d ! i) \<noteq> ''.''"
  shows "\<exists>pts. returned (f h t_new t_now) = Inr pts
           \<and> length pts = length (filter (\<lambda>obs. obs_value obs \<noteq> ''.'') (observations d))
           \<and> length (filter (\<lambda>obs. obs_value obs \<noteq> ''.'') (take i (observations d))) < length pts
           \<and> pts ! length (filter (\<lambda>obs. obs_value obs \<noteq> ''.'') (take i (observations d)))
               = normalizer h (observations d ! i)
           \<and> point_value (pts ! length (filter (\<lambda>obs. obs_value obs \<noteq> ''.'') (take i (observations d))))
               = parseFloat (obs_value (observations d ! i))
           \<and> (point_value (pts ! length (filter (\<lambda>obs. obs_value obs \<noteq> ''.'') (take i (observations d))))
                = NaN) = (\<not> starts_with_number (obs_value (observations d ! i)))"
proof -
  let ?P = "\<lambda>obs. obs_value obs \<noteq> ''.''"
  let ?xs = "observations d"
  let ?j = "length (filter ?P (take i ?xs))"
  have e: "(\<lambda>obs. \<not> sentinel obs) = ?P" by (simp add: sentinel_def)
  have r: "returned (f h t_new t_now) = Inr (map (normalizer h) (filter ?P ?xs))"
    using pipeline_series_ok [OF assms(1-6)] unfolding e .
  have p: "?j < length (filter ?P ?xs) \<and> filter ?P ?xs ! ?j = ?xs ! i"
    using assms(7,8) by (rule filter_position)
  then have n: "map (normalizer h) (filter ?P ?xs) ! ?j = normalizer h (?xs ! i)"
    by simp
  have v: "point_value (normalizer h (?xs ! i)) = parseFloat (obs_value (?xs ! i))"
    by (simp add: normalizer_def)
  have w: "(parseFloat (obs_value (?xs ! i)) = NaN) = (\<not> starts_with_number (obs_value (?xs ! i)))"
    by (rule parseFloat_NaN_iff)
  from r p n v w show ?thesis by simp
qed

theorem non_sentinel_value_kept_witness:
  "(''UNRATE'', fetchUnemploymentData) \<in> set pipelines
   \<and> clock_ok 1793692800123 1793692800124
   \<and> obs_value ([\<lparr>obs_date = ''2020-01-01'', obs_value = ''3.6''\<rparr>,
                  \<lparr>obs_date = ''2020-02-01'', obs_value = ''.''\<rparr>,
                  \<lparr>obs_date = ''2020-03-01'', obs_value = ''N/A''\<rparr>] ! 2) \<noteq> ''.''
   \<and> \<not> starts_with_number ''N/A''
   \<and> (\<exists>pts. returned (fetchUnemploymentData
         (example_host (series_response
            [\<lparr>obs_date = ''2020-01-01'', obs_value = ''3.6''\<rparr>,
             \<lparr>obs_date = ''2020-02-01'', obs_value = ''.''\<rparr>,
             \<lparr>obs_date = ''2020-03-01'', obs_value = ''N/A''\<rparr>]) 0)
         1793692800123 1793692800124) = Inr pts
        \<and> length pts = 2
        \<and> pts ! 1 = normalizer (example_host (series_response
            [\<lparr>obs_date = ''2020-01-01'', obs_value = ''3.6''\<rparr>,
             \<lparr>obs_date = ''2020-02-01'', obs_value = ''.''\<rparr>,
             \<lparr>obs_date = ''2020-03-01'', obs_value = ''N/A''\<rparr>]) 0)
            \<lparr>obs_date = ''2020-03-01'', obs_value = ''N/A''\<rparr>
        \<and> point_value (pts ! 1) = NaN)"
proof -
  let ?obs = "[\<lparr>obs_date = ''2020-01-01'', obs_value = ''3.6''\<rparr>,
               \<lparr>obs_date = ''2020-02-01'', obs_value = ''.''\<rparr>,
               \<lparr>obs_date = ''2020-03-01'', obs_value = ''N/A''\<rparr>]"
  let ?r = "\<lparr>status = 200, body = Series \<lparr>observations = ?obs\<rparr>\<rparr>"
  let ?h = "example_host (series_response ?obs) 0"
  have m: "(''UNRATE'', fetchUnemploymentData) \<in> set pipelines"
    by (simp add: pipelines_def)
  have c: "clock_ok 1793692800123 1793692800124"
    by (simp add: clock_ok_def)
  have k: "configured ?h ''abcdef0123456789''"
    by (simp add: configured_def example_host_def)
  have n: "net ?h (pipeline_url ''UNRATE'' ''abcdef0123456789'' 1793692800123 1793692800124) = Responded ?r"
    by (simp add: example_host_def series_response_def)
  have o: "ok ?r" by (simp add: ok_def)
  have b: "body ?r = Series \<lparr>observations = ?obs\<rparr>" by simp
  have i: "2 < length (observations \<lparr>observations = ?obs\<rparr>)" by simp
  have s: "obs_value (observations \<lparr>observations = ?obs\<rparr> ! 2) \<noteq> ''.''" by simp
  have q: "\<not> starts_with_number ''N/A''" by code_simp
  from non_sentinel_value_kept [OF m c k n o b i s] m c q
  show ?thesis by (auto simp: numeral_2_eq_2)
qed

end
